theory Spec2Isabelle
  imports Complex_Main
begin

section \<open>Tensors\<close>

text \<open>
  A tensor is its shape together with its entries, read by a multi-index. The shape is
  kept apart from the entries because the sampler works with tensors that have a
  dimension of size 0 (the weights before the first evaluation have shape [0, 0, 0], and
  a draw for batch size 0 has shape [0, L + M, P]). Entries are real numbers: the model
  computes in exact arithmetic, rounding of float64 is outside it.
\<close>

datatype tensor = Tensor (shape: "nat list") (entry: "nat list \<Rightarrow> real")

definition rank :: "tensor \<Rightarrow> nat" where
  "rank t = length (shape t)"

text \<open>Row-major offset of a multi-index, and its inverse (used by reshape).\<close>

fun ravel :: "nat list \<Rightarrow> nat list \<Rightarrow> nat" where
  "ravel [] idx = 0"
| "ravel (d # ds) [] = 0"
| "ravel (d # ds) (i # idx) = i * prod_list ds + ravel ds idx"

fun unravel :: "nat list \<Rightarrow> nat \<Rightarrow> nat list" where
  "unravel [] k = []"
| "unravel (d # ds) k = (k div prod_list ds) # unravel ds (k mod prod_list ds)"

definition reshape :: "nat list \<Rightarrow> tensor \<Rightarrow> tensor" where
  "reshape shp t = Tensor shp (\<lambda>idx. entry t (unravel (shape t) (ravel shp idx)))"

text \<open>
  Broadcasting of element-wise operations: shapes are aligned at their last dimension, a
  dimension of size 1 is stretched. TensorFlow raises on shapes that do not broadcast;
  the sampler only combines shapes that do, so the model takes the dimension of the first
  operand unless it is 1.
\<close>

fun bshape_rev :: "nat list \<Rightarrow> nat list \<Rightarrow> nat list" where
  "bshape_rev [] ys = ys"
| "bshape_rev (x # xs) [] = x # xs"
| "bshape_rev (x # xs) (y # ys) = (if x = 1 then y else x) # bshape_rev xs ys"

definition broadcast_shape :: "nat list \<Rightarrow> nat list \<Rightarrow> nat list" where
  "broadcast_shape xs ys = rev (bshape_rev (rev xs) (rev ys))"

definition bproj :: "nat list \<Rightarrow> nat list \<Rightarrow> nat list" where
  "bproj shp idx =
     map2 (\<lambda>d i. if d = 1 then 0 else i) shp (drop (length idx - length shp) idx)"

definition binop :: "(real \<Rightarrow> real \<Rightarrow> real) \<Rightarrow> tensor \<Rightarrow> tensor \<Rightarrow> tensor" where
  "binop f x y =
     Tensor (broadcast_shape (shape x) (shape y))
       (\<lambda>idx. f (entry x (bproj (shape x) idx)) (entry y (bproj (shape y) idx)))"

definition tadd :: "tensor \<Rightarrow> tensor \<Rightarrow> tensor" where
  "tadd = binop (+)"

definition tsub :: "tensor \<Rightarrow> tensor \<Rightarrow> tensor" where
  "tsub = binop (-)"

definition tmul :: "tensor \<Rightarrow> tensor \<Rightarrow> tensor" where
  "tmul = binop (*)"

definition scale :: "real \<Rightarrow> tensor \<Rightarrow> tensor" where
  "scale c t = Tensor (shape t) (\<lambda>idx. c * entry t idx)"

definition tf_eye :: "nat \<Rightarrow> tensor" where
  "tf_eye n = Tensor [n, n] (\<lambda>idx. if idx ! 0 = idx ! 1 then 1 else 0)"

text \<open>
  tf.matmul: the last two dimensions are multiplied as matrices; the leading (batch)
  dimensions of the operand of lower rank are extended on the left to those of the other
  ([P, M, M] times [B, P, M, 1], [M, L] times [B, L, P]).
\<close>

definition matmul :: "tensor \<Rightarrow> tensor \<Rightarrow> tensor" where
  "matmul x y =
     (let rx = length (shape x); ry = length (shape y);
          lead = (if ry \<le> rx then take (rx - 2) (shape x) else take (ry - 2) (shape y));
          n = shape x ! (rx - 2); k = shape x ! (rx - 1); m = shape y ! (ry - 1)
      in Tensor (lead @ [n, m])
           (\<lambda>idx. let l = take (length idx - 2) idx;
                       i = idx ! (length idx - 2); j = idx ! (length idx - 1)
                   in (\<Sum>t\<leftarrow>[0..<k].
                         entry x (drop (length l - (rx - 2)) l @ [i, t]) *
                         entry y (drop (length l - (ry - 2)) l @ [t, j]))))"

definition matrix_transpose :: "tensor \<Rightarrow> tensor" where
  "matrix_transpose t =
     (let r = length (shape t)
      in Tensor (take (r - 2) (shape t) @ [shape t ! (r - 1), shape t ! (r - 2)])
           (\<lambda>idx. entry t (take (r - 2) idx @ [idx ! (r - 1), idx ! (r - 2)])))"

text \<open>\<open>t[..., 0]\<close>, \<open>t[..., None]\<close>, \<open>t[:, :n]\<close>, tf.concat along an axis and
  tf.reduce_sum along the axis before the last.\<close>

definition select_last0 :: "tensor \<Rightarrow> tensor" where
  "select_last0 t = Tensor (butlast (shape t)) (\<lambda>idx. entry t (idx @ [0]))"

definition expand_dims_last :: "tensor \<Rightarrow> tensor" where
  "expand_dims_last t = Tensor (shape t @ [1]) (\<lambda>idx. entry t (butlast idx))"

definition slice_cols :: "tensor \<Rightarrow> nat \<Rightarrow> tensor" where
  "slice_cols t n = Tensor [shape t ! 0, min n (shape t ! 1)] (entry t)"

definition tf_concat :: "nat \<Rightarrow> tensor \<Rightarrow> tensor \<Rightarrow> tensor" where
  "tf_concat axis x y =
     Tensor ((shape x)[axis := shape x ! axis + shape y ! axis])
       (\<lambda>idx. if idx ! axis < shape x ! axis then entry x idx
               else entry y (idx[axis := idx ! axis - shape x ! axis]))"

definition reduce_sum_m2 :: "tensor \<Rightarrow> tensor" where
  "reduce_sum_m2 t =
     (let r = length (shape t)
      in Tensor (take (r - 2) (shape t) @ [shape t ! (r - 1)])
           (\<lambda>idx. \<Sum>j\<leftarrow>[0..<shape t ! (r - 2)]. entry t (butlast idx @ [j, last idx])))"

section \<open>The random state\<close>

text \<open>
  The global random generator is a stream of reals: a sampler called for a shape takes
  the next \<open>prod_list shape\<close> values and leaves the rest. The distribution of the values
  (standard normal, uniform phase, spectral density of the kernel) belongs to the
  library samplers and is not part of the model; what the model keeps is which draws are
  made, in which order, and with which shapes.
\<close>

type_synonym rng = "nat \<Rightarrow> real"

definition draw :: "nat list \<Rightarrow> rng \<Rightarrow> tensor \<times> rng" where
  "draw shp g = (Tensor shp (\<lambda>idx. g (ravel shp idx)), \<lambda>k. g (k + prod_list shp))"

definition random_normal :: "nat list \<Rightarrow> rng \<Rightarrow> tensor \<times> rng" where
  "random_normal = draw"

text \<open>The samplers of the random Fourier feature class, under the names of both
  supported gpflux versions.\<close>

definition sample_bias :: "nat list \<Rightarrow> rng \<Rightarrow> tensor \<times> rng" where
  "sample_bias = draw"

definition sample_weights :: "nat list \<Rightarrow> rng \<Rightarrow> tensor \<times> rng" where
  "sample_weights = draw"

definition bias_init :: "nat list \<Rightarrow> rng \<Rightarrow> tensor \<times> rng" where
  "bias_init = draw"

definition weights_init :: "nat list \<Rightarrow> rng \<Rightarrow> tensor \<times> rng" where
  "weights_init = draw"

section \<open>The deep GP model and the library\<close>

text \<open>
  The model's layers are objects of gpflux, consumed by the samplers through their
  attributes. A kernel is its Gram function \<open>K\<close>; a shared-independent multi-output
  kernel wraps a base kernel, and shared inducing variables wrap inducing points.
  The parameters of a layer are read through references each time they are used, so a
  record of this type stands for the current value of the layer object.
\<close>

type_synonym kfun = "tensor \<Rightarrow> tensor \<Rightarrow> tensor"

datatype kernel = Kernel kfun | SharedIndependent kfun

datatype inducing_variable =
  InducingPoints tensor | SharedIndependentInducingVariables tensor

record gp_layer =
  num_data :: nat
  kernel :: kernel
  inducing_variable :: inducing_variable
  q_mu :: tensor
  q_sqrt :: tensor
  whiten :: bool
  mean_function :: "tensor \<Rightarrow> tensor"
  forward :: "tensor \<Rightarrow> tensor"

datatype layer =
    GPLayer gp_layer
  | LatentVariableLayer nat "tensor \<Rightarrow> tensor"
  | OtherLayer nat

record deep_gp =
  model_num_data :: nat
  f_layers :: "layer list"

datatype gpflux_model = DeepGP deep_gp | OtherGPfluxModel

datatype model = GPfluxPredictor gpflux_model | OtherModel

text \<open>
  What the code calls in gpflux, TensorFlow and trieste's defaults and that is not part
  of the source: the random Fourier feature map of the base class (from the kernel, the
  frequencies \<open>W\<close>, the phases \<open>b\<close> and the input), the Cholesky factorisation, the
  Cholesky-based solver \<open>compute_A_inv_b\<close>, the constant \<open>DEFAULTS.JITTER\<close>, and
  whether the feature class has the attribute \<open>_bias_init\<close> (the newer gpflux).
\<close>

record lib =
  rff :: "kfun \<Rightarrow> tensor \<Rightarrow> tensor \<Rightarrow> tensor \<Rightarrow> tensor"
  cholesky :: "tensor \<Rightarrow> tensor"
  compute_A_inv_b :: "tensor \<Rightarrow> tensor \<Rightarrow> tensor"
  JITTER :: real
  has_bias_init :: bool

text \<open>
  The exceptions of the code, one constructor for each raise. In the words of the
  specification: \<open>UnsupportedLayer\<close> and \<open>UnsupportedFeatureLayer\<close> are the condition
  Unsupported (ValueError and NotImplementedError), \<open>NonPositiveNumFeatures\<close> is
  InvalidArgument (tf.debugging.assert_positive), \<open>BatchSizeMismatch\<close> is ShapeMismatch
  (tf.debugging.assert_equal), \<open>InputDimensionMismatch\<close> and
  \<open>ObservationDimensionMismatch\<close> are ShapeMismatch (ValueError of the model wrapper),
  \<open>NotATrajectory\<close> is TypeMismatch (tf.debugging.Assert). \<open>ShapesAssertion\<close> is
  tf.debugging.assert_shapes, \<open>SliceOutOfBounds\<close> an index into a shape that is too
  short, \<open>AttributeError\<close> the read of an attribute the object does not have.
\<close>

datatype error =
    NotGPfluxPredictor
  | NotDeepGP
  | NonPositiveNumFeatures
  | UnsupportedLayer
  | UnsupportedFeatureLayer
  | ShapesAssertion
  | SliceOutOfBounds
  | BatchSizeMismatch
  | NotATrajectory
  | InputDimensionMismatch
  | ObservationDimensionMismatch
  | AttributeError

definition the_kernel :: "gp_layer \<Rightarrow> kfun" where
  "the_kernel gl = (case kernel gl of SharedIndependent k \<Rightarrow> k | Kernel k \<Rightarrow> k)"

definition inducing_points :: "gp_layer \<Rightarrow> tensor" where
  "inducing_points gl =
     (case inducing_variable gl of
        InducingPoints Z \<Rightarrow> Z
      | SharedIndependentInducingVariables Z \<Rightarrow> Z)"

section \<open>The feature function bank\<close>

record feature_functions =
  n_components :: nat
  rff_b :: tensor
  rff_W :: tensor

definition canonical_feature_functions :: "gp_layer \<Rightarrow> tensor \<Rightarrow> tensor" where
  "canonical_feature_functions gl x =
     matrix_transpose (the_kernel gl (inducing_points gl) x)"

text \<open>\<open>__call__\<close>: Fourier features and canonical features, concatenated along the last
  axis.\<close>

definition ff_call :: "lib \<Rightarrow> gp_layer \<Rightarrow> feature_functions \<Rightarrow> tensor \<Rightarrow> tensor" where
  "ff_call lb gl ff x =
     (let fourier_feature_eval = rff lb (the_kernel gl) (rff_W ff) (rff_b ff) x;
          canonical_feature_eval = canonical_feature_functions gl x
      in tf_concat (rank fourier_feature_eval - 1) fourier_feature_eval
           canonical_feature_eval)"

text \<open>
  \<open>__init__\<close>: the first evaluation, on one inducing point, builds the phases (shape
  [1, L]) and then the frequencies (shape [L, D]); both become variables.
\<close>

definition ff_init ::
  "lib \<Rightarrow> layer \<Rightarrow> nat \<Rightarrow> rng \<Rightarrow> (error + feature_functions) \<times> rng" where
  "ff_init lb lyr n g =
     (case lyr of
        GPLayer gl \<Rightarrow>
          (let Z = inducing_points gl
           in if rank Z < 2 then (Inl SliceOutOfBounds, g)
              else
                (let (b, g1) = (if has_bias_init lb then bias_init [1, n] g
                                else sample_bias [1, n] g);
                     (W, g2) = (if has_bias_init lb then weights_init [n, last (shape Z)] g1
                                else sample_weights [n, last (shape Z)] g1)
                 in (Inr \<lparr>n_components = n, rff_b = b, rff_W = W\<rparr>, g2)))
      | _ \<Rightarrow> (Inl UnsupportedFeatureLayer, g))"

definition ff_resample :: "lib \<Rightarrow> feature_functions \<Rightarrow> rng \<Rightarrow> feature_functions \<times> rng" where
  "ff_resample lb ff g =
     (if \<not> has_bias_init lb then
        (let (b, g1) = sample_bias (shape (rff_b ff)) g;
             (W, g2) = sample_weights (shape (rff_W ff)) g1
         in (ff\<lparr>rff_b := b, rff_W := W\<rparr>, g2))
      else
        (let (b, g1) = bias_init (shape (rff_b ff)) g;
             (W, g2) = weights_init (shape (rff_W ff)) g1
         in (ff\<lparr>rff_b := b, rff_W := W\<rparr>, g2)))"

section \<open>The decoupled layer sampler\<close>

text \<open>
  The closure returned by \<open>_prepare_weight_sampler\<close>. It holds by value what was
  computed when it was prepared: the Gram matrix with jitter, the whiten flag and the
  two dimensions of \<open>q_mu\<close>. The variational parameters, the inducing points and the
  feature bank are captured by reference and read at each call.
\<close>

record weight_sampler_closure =
  ws_Kmm :: tensor
  ws_whiten :: bool
  ws_M :: nat
  ws_P :: nat

record layer_sampler =
  num_features :: nat
  layer :: gp_layer
  feature_functions :: feature_functions
  weight_sampler :: weight_sampler_closure
  initialized :: bool
  weights_sample :: tensor
  batch_size :: nat

definition assert_shapes :: "tensor \<Rightarrow> tensor \<Rightarrow> tensor \<Rightarrow> tensor \<Rightarrow> bool" where
  "assert_shapes Z qm qs Kmm =
     (length (shape Z) = 2 \<and> length (shape qm) = 2 \<and> shape qm ! 0 = shape Z ! 0 \<and>
      shape qs = [shape qm ! 1, shape Z ! 0, shape Z ! 0] \<and>
      shape Kmm = [shape Z ! 0, shape Z ! 0])"

definition gram :: "lib \<Rightarrow> gp_layer \<Rightarrow> tensor" where
  "gram lb gl =
     tadd (the_kernel gl (inducing_points gl) (inducing_points gl))
       (scale (JITTER lb) (tf_eye (shape (inducing_points gl) ! 0)))"

definition prepare_weight_sampler :: "lib \<Rightarrow> gp_layer \<Rightarrow> error + weight_sampler_closure" where
  "prepare_weight_sampler lb gl =
     (if rank (inducing_points gl) < 1 \<or> rank (q_mu gl) < 2 then Inl SliceOutOfBounds
      else if \<not> assert_shapes (inducing_points gl) (q_mu gl) (q_sqrt gl) (gram lb gl)
      then Inl ShapesAssertion
      else Inr \<lparr>ws_Kmm = gram lb gl, ws_whiten = whiten gl,
                ws_M = shape (q_mu gl) ! 0, ws_P = shape (q_mu gl) ! 1\<rparr>)"

text \<open>The body of the closure, called with the batch size.\<close>

definition weight_sampler_call ::
  "lib \<Rightarrow> layer_sampler \<Rightarrow> nat \<Rightarrow> rng \<Rightarrow> tensor \<times> rng" where
  "weight_sampler_call lb s B g =
     (let ws = weight_sampler s;
          (prior_weights, g1) = random_normal [B, num_features s, ws_P ws] g;
          (noise, g2) = random_normal [B, ws_P ws, ws_M ws, 1] g1;
          u_noise_sample = matmul (q_sqrt (layer s)) noise;
          u_sample0 = tadd (q_mu (layer s)) (matrix_transpose (select_last0 u_noise_sample));
          u_sample = (if ws_whiten ws then matmul (cholesky lb (ws_Kmm ws)) u_sample0
                      else u_sample0);
          phi_Z = slice_cols
                    (ff_call lb (layer s) (feature_functions s) (inducing_points (layer s)))
                    (num_features s);
          weight_space_prior_Z = matmul phi_Z prior_weights;
          diff = tsub u_sample weight_space_prior_Z;
          v = compute_A_inv_b lb (ws_Kmm ws) diff
      in (tf_concat 1 prior_weights v, g2))"

definition layer_init ::
  "lib \<Rightarrow> layer \<Rightarrow> nat \<Rightarrow> rng \<Rightarrow> (error + layer_sampler) \<times> rng" where
  "layer_init lb lyr n g =
     (case lyr of
        GPLayer gl \<Rightarrow>
          (case ff_init lb lyr n g of
             (Inl e, g1) \<Rightarrow> (Inl e, g1)
           | (Inr ff, g1) \<Rightarrow>
               (case prepare_weight_sampler lb gl of
                  Inl e \<Rightarrow> (Inl e, g1)
                | Inr ws \<Rightarrow>
                    (Inr \<lparr>num_features = n, layer = gl, feature_functions = ff,
                          weight_sampler = ws, initialized = False,
                          weights_sample = Tensor [0, 0, 0] (\<lambda>idx. 1), batch_size = 0\<rparr>,
                     g1)))
      | _ \<Rightarrow> (Inl UnsupportedLayer, g))"

definition resample :: "lib \<Rightarrow> layer_sampler \<Rightarrow> rng \<Rightarrow> layer_sampler \<times> rng" where
  "resample lb s g =
     (let (w, g1) = weight_sampler_call lb s (batch_size s) g
      in (s\<lparr>weights_sample := w\<rparr>, g1))"

definition update ::
  "lib \<Rightarrow> layer_sampler \<Rightarrow> rng \<Rightarrow> (error + unit) \<times> layer_sampler \<times> rng" where
  "update lb s g =
     (case prepare_weight_sampler lb (layer s) of
        Inl e \<Rightarrow> (Inl e, s, g)
      | Inr ws \<Rightarrow>
          (let (s1, g1) = resample lb (s\<lparr>weight_sampler := ws\<rparr>) g
           in (Inr (), s1, g1)))"

text \<open>
  Modelled from the spec: \<open>flatten_leading_dims\<close> of trieste.utils is not among the
  source files. The layer sampler "flattens leading batch dimensions" and "reshapes
  back": the input of shape [N, B, D] becomes [N * B, D], and the returned function
  gives a tensor of shape [N * B, F] the shape [N, B, F].
\<close>

definition flatten_leading_dims :: "tensor \<Rightarrow> tensor \<times> (tensor \<Rightarrow> tensor)" where
  "flatten_leading_dims x =
     (let batch_shape = butlast (shape x)
      in (reshape [prod_list batch_shape, last (shape x)] x,
          \<lambda>y. reshape (batch_shape @ tl (shape y)) y))"

text \<open>The value returned by \<open>__call__\<close>, from the state after the initialisation.\<close>

definition layer_output :: "lib \<Rightarrow> layer_sampler \<Rightarrow> tensor \<Rightarrow> tensor" where
  "layer_output lb s x =
     (let (flat_x, unflatten) = flatten_leading_dims x;
          flattened_feature_evaluations = ff_call lb (layer s) (feature_functions s) flat_x;
          feature_evaluations = expand_dims_last (unflatten flattened_feature_evaluations)
      in tadd (reduce_sum_m2 (tmul feature_evaluations (weights_sample s)))
           (mean_function (layer s) x))"

definition call ::
  "lib \<Rightarrow> layer_sampler \<Rightarrow> rng \<Rightarrow> tensor \<Rightarrow> (error + tensor) \<times> layer_sampler \<times> rng" where
  "call lb s g x =
     (if rank x < 2 then (Inl SliceOutOfBounds, s, g)
      else
        (let (s1, g1) =
               (if \<not> initialized s then
                  (let (s', g') = resample lb (s\<lparr>batch_size := shape x ! (rank x - 2)\<rparr>) g
                   in (s'\<lparr>initialized := True\<rparr>, g'))
                else (s, g))
         in if shape x ! (rank x - 2) \<noteq> batch_size s1 then (Inl BatchSizeMismatch, s1, g1)
            else (Inr (layer_output lb s1 x), s1, g1)))"

section \<open>The trajectory and the trajectory sampler\<close>

text \<open>
  \<open>dgp_feature_decomposition_trajectory\<close>: the layers are run in order, an exception
  of one layer leaves the layers before it as they have become. The state is the list of
  layer samplers and the random state.
\<close>

fun layers_call ::
  "lib \<Rightarrow> layer_sampler list \<Rightarrow> rng \<Rightarrow> tensor \<Rightarrow> (error + tensor) \<times> layer_sampler list \<times> rng" where
  "layers_call lb [] g x = (Inr x, [], g)"
| "layers_call lb (s # ss) g x =
     (case call lb s g x of
        (Inl e, s1, g1) \<Rightarrow> (Inl e, s1 # ss, g1)
      | (Inr y, s1, g1) \<Rightarrow>
          (case layers_call lb ss g1 y of (r, ss1, g2) \<Rightarrow> (r, s1 # ss1, g2)))"

definition trajectory_call ::
  "lib \<Rightarrow> layer_sampler list \<Rightarrow> rng \<Rightarrow> tensor \<Rightarrow> (error + tensor) \<times> layer_sampler list \<times> rng" where
  "trajectory_call lb ss g x =
     (case layers_call lb ss g x of
        (Inl e, ss1, g1) \<Rightarrow> (Inl e, ss1, g1)
      | (Inr y, ss1, g1) \<Rightarrow>
          (if rank y < 1 \<or> last (shape y) = 0 then (Inl SliceOutOfBounds, ss1, g1)
           else (Inr (select_last0 y), ss1, g1)))"



text \<open>
  Objects and references. The trajectory sampler builds its list of layer samplers once;
  every trajectory it hands out holds a reference to that same list. The store keeps the
  lists of layer samplers by address and the callables (trajectories and others) by
  reference; a trajectory object is the address of its list.
\<close>

datatype pyobject = DecoupledTrajectory nat | OtherCallable

record world =
  rng_state :: rng
  sampling_layers :: "nat \<Rightarrow> layer_sampler list"
  objects :: "nat \<rightharpoonup> pyobject"
  next_ref :: nat

record trajectory_sampler =
  ts_num_features :: int
  ts_sampling_layers :: nat

fun layers_init ::
  "lib \<Rightarrow> layer list \<Rightarrow> nat \<Rightarrow> rng \<Rightarrow> (error + layer_sampler list) \<times> rng" where
  "layers_init lb [] n g = (Inr [], g)"
| "layers_init lb (l # ls) n g =
     (case layer_init lb l n g of
        (Inl e, g1) \<Rightarrow> (Inl e, g1)
      | (Inr s, g1) \<Rightarrow>
          (case layers_init lb ls n g1 of
             (Inl e, g2) \<Rightarrow> (Inl e, g2)
           | (Inr ss, g2) \<Rightarrow> (Inr (s # ss), g2)))"

definition trajectory_sampler_init ::
  "lib \<Rightarrow> model \<Rightarrow> int \<Rightarrow> world \<Rightarrow> (error + trajectory_sampler) \<times> world" where
  "trajectory_sampler_init lb mdl n w =
     (case mdl of
        OtherModel \<Rightarrow> (Inl NotGPfluxPredictor, w)
      | GPfluxPredictor OtherGPfluxModel \<Rightarrow> (Inl NotDeepGP, w)
      | GPfluxPredictor (DeepGP dgp) \<Rightarrow>
          (if n \<le> 0 then (Inl NonPositiveNumFeatures, w)
           else
             (case layers_init lb (f_layers dgp) (nat n) (rng_state w) of
                (Inl e, g1) \<Rightarrow> (Inl e, w\<lparr>rng_state := g1\<rparr>)
              | (Inr ss, g1) \<Rightarrow>
                  (Inr \<lparr>ts_num_features = n, ts_sampling_layers = next_ref w\<rparr>,
                   w\<lparr>rng_state := g1,
                     sampling_layers := (sampling_layers w)(next_ref w := ss),
                     next_ref := Suc (next_ref w)\<rparr>))))"




section \<open>The model wrapper: update of the deep Gaussian process\<close>

record dataset =
  query_points :: tensor
  observations :: tensor

definition set_num_data :: "nat \<Rightarrow> layer \<Rightarrow> layer" where
  "set_num_data n l =
     (case l of
        GPLayer gl \<Rightarrow> GPLayer (gl\<lparr>num_data := n\<rparr>)
      | LatentVariableLayer k f \<Rightarrow> LatentVariableLayer n f
      | OtherLayer k \<Rightarrow> OtherLayer n)"

text \<open>
  The loop of \<open>DeepGaussianProcess.update\<close> over the layers, with the index \<open>i\<close> of
  the layer, the number \<open>len\<close> of layers and the inputs as they have been passed through
  the layers before.
\<close>

fun update_layers ::
  "dataset \<Rightarrow> nat \<Rightarrow> nat \<Rightarrow> nat \<Rightarrow> tensor \<Rightarrow> layer list \<Rightarrow> (error + unit) \<times> layer list" where
  "update_layers ds n len i inputs [] = (Inr (), [])"
| "update_layers ds n len i inputs (l # ls) =
     (case set_num_data n l of
        LatentVariableLayer k f \<Rightarrow>
          (case update_layers ds n len (Suc i) (f inputs) ls of
             (r, ls1) \<Rightarrow> (r, LatentVariableLayer k f # ls1))
      | OtherLayer k \<Rightarrow> (Inl AttributeError, OtherLayer k # ls)
      | GPLayer gl \<Rightarrow>
          (if rank inputs < 1 \<or> rank (inducing_points gl) < 1
           then (Inl SliceOutOfBounds, GPLayer gl # ls)
           else if last (shape inputs) \<noteq> last (shape (inducing_points gl))
           then (Inl InputDimensionMismatch, GPLayer gl # ls)
           else if i = len - 1 \<and> (rank (observations ds) < 1 \<or> rank (q_mu gl) < 1)
           then (Inl SliceOutOfBounds, GPLayer gl # ls)
           else if i = len - 1 \<and> last (shape (observations ds)) \<noteq> last (shape (q_mu gl))
           then (Inl ObservationDimensionMismatch, GPLayer gl # ls)
           else
             (case update_layers ds n len (Suc i) (forward gl inputs) ls of
                (r, ls1) \<Rightarrow> (r, GPLayer gl # ls1))))"

definition dgp_update :: "deep_gp \<Rightarrow> dataset \<Rightarrow> (error + unit) \<times> deep_gp" where
  "dgp_update m ds =
     (let inputs = query_points ds
      in if rank inputs < 1 then (Inl SliceOutOfBounds, m)
         else
           (case update_layers ds (shape inputs ! 0) (length (f_layers m)) 0 inputs
                   (f_layers m) of
              (r, ls1) \<Rightarrow> (r, m\<lparr>model_num_data := shape inputs ! 0, f_layers := ls1\<rparr>)))"

section \<open>Contracts of the library and invariants of the model\<close>

text \<open>
  What the library promises about shapes: the Fourier features of \<open>N\<close> inputs for \<open>L\<close>
  frequencies have shape [N, L], and the Gram matrix of a kernel between \<open>M\<close> and \<open>N\<close>
  points has shape [M, N]. The variables of a feature bank for input dimension \<open>D\<close> have
  the shapes [L, D] and [1, L].
\<close>

definition fourier_shape_contract :: "lib \<Rightarrow> bool" where
  "fourier_shape_contract lb =
     (\<forall>k W b x. shape (rff lb k W b x) = [shape x ! 0, shape W ! 0])"

definition gram_shape_contract :: "kfun \<Rightarrow> bool" where
  "gram_shape_contract k = (\<forall>X Y. shape (k X Y) = [shape X ! 0, shape Y ! 0])"

definition bank_shapes :: "feature_functions \<Rightarrow> nat \<Rightarrow> bool" where
  "bank_shapes ff D =
     (shape (rff_W ff) = [n_components ff, D] \<and> shape (rff_b ff) = [1, n_components ff])"

text \<open>
  The quantities of Matheron's rule, entry by entry, in the words of the specification:
  the draw \<open>u = q_mu + q_sqrt * noise\<close> from the variational posterior; the same draw
  multiplied from the left by the Cholesky factor of \<open>K_mm\<close> when the sampler whitens;
  the prior evaluated at the inducing points, \<open>\<Phi>(Z) * prior\<close>, over the Fourier
  features; and what the library's solver promises for a matrix \<open>A\<close> of \<open>M\<close> rows
  and right-hand sides of shape [B, M, P]: a tensor \<open>v\<close> of that shape with
  \<open>A * v = d\<close>.
\<close>

definition posterior_draw :: "gp_layer \<Rightarrow> tensor \<Rightarrow> nat \<Rightarrow> nat \<Rightarrow> nat \<Rightarrow> real" where
  "posterior_draw gl noise b m p =
     entry (q_mu gl) [m, p] +
     (\<Sum>j\<leftarrow>[0..<shape (q_mu gl) ! 0]. entry (q_sqrt gl) [p, m, j] * entry noise [b, p, j, 0])"

definition inducing_draw :: "lib \<Rightarrow> layer_sampler \<Rightarrow> tensor \<Rightarrow> nat \<Rightarrow> nat \<Rightarrow> nat \<Rightarrow> real" where
  "inducing_draw lb s noise b m p =
     (if ws_whiten (weight_sampler s) then
        (\<Sum>j\<leftarrow>[0..<ws_M (weight_sampler s)].
           entry (cholesky lb (ws_Kmm (weight_sampler s))) [m, j] *
           posterior_draw (layer s) noise b j p)
      else posterior_draw (layer s) noise b m p)"

definition prior_at_Z :: "lib \<Rightarrow> layer_sampler \<Rightarrow> tensor \<Rightarrow> nat \<Rightarrow> nat \<Rightarrow> nat \<Rightarrow> real" where
  "prior_at_Z lb s prior b m p =
     (\<Sum>l\<leftarrow>[0..<num_features s].
        entry (rff lb (the_kernel (layer s)) (rff_W (feature_functions s))
                 (rff_b (feature_functions s)) (inducing_points (layer s))) [m, l] *
        entry prior [b, l, p])"

definition solves :: "lib \<Rightarrow> tensor \<Rightarrow> nat \<Rightarrow> nat \<Rightarrow> nat \<Rightarrow> bool" where
  "solves lb A B M P =
     (\<forall>d. shape d = [B, M, P] \<longrightarrow>
        shape (compute_A_inv_b lb A d) = [B, M, P] \<and>
        (\<forall>b < B. \<forall>m < M. \<forall>p < P.
           (\<Sum>j\<leftarrow>[0..<M]. entry A [m, j] * entry (compute_A_inv_b lb A d) [b, j, p]) =
             entry d [b, m, p]))"

text \<open>
  To say which inputs reach a layer: the inputs after they have been passed through the
  layers in front of it. A layer of the wrapped model is a GP layer or a latent-variable
  layer (the wrapper's constructor admits no other), its tensors are not scalars and it
  returns no scalar. The two checks of the loop, at the GP layer that follows the layers
  \<open>pre\<close> and is followed by the layers \<open>post\<close>: the trailing dimension of the inputs
  that reach it against that of its inducing points, and, at the last layer, the trailing
  dimension of the observations against that of its variational mean.
\<close>

fun layer_forward :: "layer \<Rightarrow> tensor \<Rightarrow> tensor" where
  "layer_forward (GPLayer gl) x = forward gl x"
| "layer_forward (LatentVariableLayer k f) x = f x"
| "layer_forward (OtherLayer k) x = x"

definition inputs_after :: "layer list \<Rightarrow> tensor \<Rightarrow> tensor" where
  "inputs_after pre x = fold layer_forward pre x"

definition wrapper_layer_ok :: "layer \<Rightarrow> bool" where
  "wrapper_layer_ok l =
     (case l of
        GPLayer gl \<Rightarrow>
          1 \<le> rank (inducing_points gl) \<and> 1 \<le> rank (q_mu gl) \<and>
          (\<forall>x. 1 \<le> rank x \<longrightarrow> 1 \<le> rank (forward gl x))
      | LatentVariableLayer k f \<Rightarrow> (\<forall>x. 1 \<le> rank x \<longrightarrow> 1 \<le> rank (f x))
      | OtherLayer k \<Rightarrow> False)"

definition mismatch_at :: "dataset \<Rightarrow> layer list \<Rightarrow> gp_layer \<Rightarrow> layer list \<Rightarrow> bool" where
  "mismatch_at ds pre gl post =
     (last (shape (inputs_after pre (query_points ds))) \<noteq> last (shape (inducing_points gl)) \<or>
      (post = [] \<and> last (shape (observations ds)) \<noteq> last (shape (q_mu gl))))"

text \<open>
  The shape invariant of a GP layer (inducing points [M, D], \<open>q_mu\<close> [M, P],
  \<open>q_sqrt\<close> [P, M, M], Gram matrix [M, M]) is what \<open>tf.debugging.assert_shapes\<close>
  checks; a layer that the constructor of the layer sampler accepts is a GP layer with
  this invariant.
\<close>

definition well_shaped :: "lib \<Rightarrow> gp_layer \<Rightarrow> bool" where
  "well_shaped lb gl =
     assert_shapes (inducing_points gl) (q_mu gl) (q_sqrt gl) (gram lb gl)"

definition plain_gp_layer :: "layer \<Rightarrow> bool" where
  "plain_gp_layer l = (case l of GPLayer gl \<Rightarrow> True | _ \<Rightarrow> False)"

definition constructible :: "lib \<Rightarrow> layer \<Rightarrow> bool" where
  "constructible lb l = (case l of GPLayer gl \<Rightarrow> well_shaped lb gl | _ \<Rightarrow> False)"

section \<open>Histories of a layer sampler\<close>

text \<open>What a caller can do with a layer sampler once it exists, and the state after a
  sequence of such operations (an exception leaves the state as the operation left it).\<close>

datatype sampler_op = Call tensor | Resample | Update

fun step :: "lib \<Rightarrow> sampler_op \<Rightarrow> layer_sampler \<times> rng \<Rightarrow> layer_sampler \<times> rng" where
  "step lb (Call x) (s, g) = snd (call lb s g x)"
| "step lb Resample (s, g) = resample lb s g"
| "step lb Update (s, g) = snd (update lb s g)"

fun run :: "lib \<Rightarrow> sampler_op list \<Rightarrow> layer_sampler \<times> rng \<Rightarrow> layer_sampler \<times> rng" where
  "run lb [] st = st"
| "run lb (a # ops) st = run lb ops (step lb a st)"


section \<open>A small concrete model\<close>

text \<open>
  One GP layer with one inducing point at 1, input and output dimension 1,
  \<open>q_mu = 2\<close>, \<open>q_sqrt = 1\<close>, not whitened, zero mean function, and a linear kernel
  \<open>K(x, y) = c * x * y\<close>; one Fourier feature \<open>cos (W * x + b)\<close>. For a Gram matrix of
  one row the Cholesky factor is the square root and the solver a division. The jitter is
  trieste's default, 1e-6.
\<close>

definition matrix1 :: "real \<Rightarrow> tensor" where
  "matrix1 c = Tensor [1, 1] (\<lambda>idx. c)"

definition linear_kernel :: "real \<Rightarrow> kfun" where
  "linear_kernel c X Y =
     Tensor [shape X ! 0, shape Y ! 0]
       (\<lambda>idx. c * (entry X [idx ! 0, 0] * entry Y [idx ! 1, 0]))"

definition zero_mean :: "tensor \<Rightarrow> tensor" where
  "zero_mean x = Tensor (butlast (shape x) @ [1]) (\<lambda>idx. 0)"

definition lib1 :: lib where
  "lib1 =
     \<lparr>rff = (\<lambda>k W b x. Tensor [shape x ! 0, shape W ! 0]
                (\<lambda>idx. cos (entry W [idx ! 1, 0] * entry x [idx ! 0, 0] + entry b [0, idx ! 1]))),
      cholesky = (\<lambda>A. Tensor [1, 1] (\<lambda>idx. sqrt (entry A [0, 0]))),
      compute_A_inv_b = (\<lambda>A d. Tensor (shape d) (\<lambda>idx. entry d idx / entry A [0, 0])),
      JITTER = 1 / 1000000,
      has_bias_init = True\<rparr>"

definition gp_layer1 :: "real \<Rightarrow> gp_layer" where
  "gp_layer1 c =
     \<lparr>num_data = 1, kernel = Kernel (linear_kernel c),
      inducing_variable = InducingPoints (matrix1 1),
      q_mu = matrix1 2, q_sqrt = Tensor [1, 1, 1] (\<lambda>idx. 1), whiten = False,
      mean_function = zero_mean, forward = zero_mean\<rparr>"

definition rng0 :: rng where
  "rng0 k = real k"

text \<open>The layer sampler that the constructor builds for this layer with one feature,
  from the random state \<open>rng0\<close>; \<open>rng2\<close> is the random state it leaves.\<close>

definition rng2 :: rng where
  "rng2 k = real (k + 2)"

definition sampler1 :: layer_sampler where
  "sampler1 =
     \<lparr>num_features = 1, layer = gp_layer1 1,
      feature_functions =
        \<lparr>n_components = 1, rff_b = fst (draw [1, 1] rng0),
         rff_W = fst (draw [1, 1] (snd (draw [1, 1] rng0)))\<rparr>,
      weight_sampler =
        \<lparr>ws_Kmm = gram lib1 (gp_layer1 1), ws_whiten = False, ws_M = 1, ws_P = 1\<rparr>,
      initialized = False, weights_sample = Tensor [0, 0, 0] (\<lambda>idx. 1), batch_size = 0\<rparr>"

definition input111 :: tensor where
  "input111 = Tensor [1, 1, 1] (\<lambda>idx. 1)"

definition input121 :: tensor where
  "input121 = Tensor [1, 2, 1] (\<lambda>idx. 1)"

text \<open>
  The layer sampler above after its first evaluation (batch size 1) and a refit of the
  model that has changed the variance of the kernel from 1 to 2.
\<close>

definition sampler1_refit :: layer_sampler where
  "sampler1_refit = (fst (snd (call lib1 sampler1 rng2 input111)))\<lparr>layer := gp_layer1 2\<rparr>"

text \<open>Three inputs of dimension 1.\<close>

definition input_3 :: tensor where
  "input_3 = Tensor [3, 1] (\<lambda>idx. real (idx ! 0))"

text \<open>
  GP layers of input dimension \<open>d\<close> and output dimension \<open>p\<close>, a deep GP of widths
  2, 3, 1, and datasets of five points.
\<close>

definition wide_layer :: "nat \<Rightarrow> nat \<Rightarrow> gp_layer" where
  "wide_layer d p =
     \<lparr>num_data = 0, kernel = Kernel (linear_kernel 1),
      inducing_variable = InducingPoints (Tensor [1, d] (\<lambda>idx. 0)),
      q_mu = Tensor [1, p] (\<lambda>idx. 0), q_sqrt = Tensor [p, 1, 1] (\<lambda>idx. 1), whiten = False,
      mean_function = (\<lambda>x. Tensor (butlast (shape x) @ [p]) (\<lambda>idx. 0)),
      forward = (\<lambda>x. Tensor (butlast (shape x) @ [p]) (\<lambda>idx. 0))\<rparr>"

definition dgp_2_3_1 :: deep_gp where
  "dgp_2_3_1 =
     \<lparr>model_num_data = 0, f_layers = [GPLayer (wide_layer 2 3), GPLayer (wide_layer 3 1)]\<rparr>"

definition data_5 :: "nat \<Rightarrow> nat \<Rightarrow> dataset" where
  "data_5 d p =
     \<lparr>query_points = Tensor [5, d] (\<lambda>idx. 0), observations = Tensor [5, p] (\<lambda>idx. 0)\<rparr>"

text \<open>
  An empty store; a model whose second layer is a latent-variable layer; and a store in
  which the list at address 0 holds the layer sampler above, object 1 is a trajectory over
  that list and object 2 is some other callable.
\<close>

definition world0 :: world where
  "world0 = \<lparr>rng_state = rng0, sampling_layers = (\<lambda>a. []), objects = Map.empty, next_ref = 0\<rparr>"

definition dgp_with_latent_layer :: deep_gp where
  "dgp_with_latent_layer =
     \<lparr>model_num_data = 1,
      f_layers = [GPLayer (gp_layer1 1), LatentVariableLayer 1 zero_mean]\<rparr>"


definition sampler_of_layer1 :: trajectory_sampler where
  "sampler_of_layer1 = \<lparr>ts_num_features = 1, ts_sampling_layers = 0\<rparr>"

section \<open>The state of a layer sampler under its operations\<close>

lemma resample_fst:
  "fst (resample lb s g) = s\<lparr>weights_sample := fst (weight_sampler_call lb s (batch_size s) g)\<rparr>"
  by (simp add: resample_def split: prod.splits)

lemma resample_snd:
  "snd (resample lb s g) = snd (weight_sampler_call lb s (batch_size s) g)"
  by (simp add: resample_def split: prod.splits)

lemma weight_sampler_call_snd:
  "snd (weight_sampler_call lb s B g) =
     (\<lambda>k. g (k + (B * (num_features s * ws_P (weight_sampler s)) + B * (ws_P (weight_sampler s) * ws_M (weight_sampler s)))))"
  by (simp add: weight_sampler_call_def random_normal_def draw_def Let_def ac_simps split: prod.splits)

lemma update_ok:
  "prepare_weight_sampler lb (layer s) = Inr ws \<Longrightarrow>
   update lb s g = (Inr (), resample lb (s\<lparr>weight_sampler := ws\<rparr>) g)"
  by (simp add: update_def split: prod.splits)

lemma update_err:
  "prepare_weight_sampler lb (layer s) = Inl e \<Longrightarrow> update lb s g = (Inl e, s, g)"
  by (simp add: update_def)

lemma update_frame:
  "feature_functions (fst (snd (update lb s g))) = feature_functions s \<and>
   batch_size (fst (snd (update lb s g))) = batch_size s \<and>
   initialized (fst (snd (update lb s g))) = initialized s \<and>
   layer (fst (snd (update lb s g))) = layer s \<and>
   num_features (fst (snd (update lb s g))) = num_features s"
  by (cases "prepare_weight_sampler lb (layer s)") (simp_all add: update_ok update_err resample_fst)

lemma call_initialized:
  "initialized s \<Longrightarrow> snd (call lb s g x) = (s, g)"
  by (simp add: call_def Let_def split: prod.splits)

lemma call_ready:
  "initialized s \<Longrightarrow> 2 \<le> rank x \<Longrightarrow>
   call lb s g x =
     (if shape x ! (rank x - 2) \<noteq> batch_size s then Inl BatchSizeMismatch
      else Inr (layer_output lb s x), s, g)"
  by (simp add: call_def)

lemma call_uninitialized:
  assumes "\<not> initialized s" "2 \<le> rank x"
  shows "call lb s g x =
     (Inr (layer_output lb
             ((fst (resample lb (s\<lparr>batch_size := shape x ! (rank x - 2)\<rparr>) g))\<lparr>initialized := True\<rparr>) x),
      (fst (resample lb (s\<lparr>batch_size := shape x ! (rank x - 2)\<rparr>) g))\<lparr>initialized := True\<rparr>,
      snd (resample lb (s\<lparr>batch_size := shape x ! (rank x - 2)\<rparr>) g))"
  using assms
  by (cases "resample lb (s\<lparr>batch_size := shape x ! (rank x - 2)\<rparr>) g")
     (auto simp add: call_def resample_def split: prod.splits)

lemma call_stable:
  assumes "call lb s g x = (r, s1, g1)"
  shows "call lb s1 g' x = (r, s1, g')"
proof (cases "rank x < 2")
  case True
  with assms show ?thesis by (simp add: call_def)
next
  case rk: False
  then have rk2: "2 \<le> rank x" by simp
  show ?thesis
  proof (cases "initialized s")
    case True
    from assms call_ready[OF True rk2, of lb g] have "s1 = s" by auto
    with assms call_ready[OF True rk2] show ?thesis by auto
  next
    case False
    from assms call_uninitialized[OF False rk2, of lb g]
    have s1: "s1 = (fst (resample lb (s\<lparr>batch_size := shape x ! (rank x - 2)\<rparr>) g))\<lparr>initialized := True\<rparr>"
      and r: "r = Inr (layer_output lb s1 x)"
      by auto
    from s1 have i: "initialized s1" and b: "batch_size s1 = shape x ! (rank x - 2)"
      by (simp_all add: resample_fst)
    from call_ready[OF i rk2, of lb g'] b r show ?thesis by simp
  qed
qed

lemma layers_call_stable:
  "layers_call lb ss g x = (r, ss1, g1) \<Longrightarrow> layers_call lb ss1 g' x = (r, ss1, g')"
proof (induction ss arbitrary: g x r ss1 g1 g')
  case Nil
  then show ?case by auto
next
  case (Cons s ss)
  obtain r0 s1 g0 where c: "call lb s g x = (r0, s1, g0)" by (cases "call lb s g x") auto
  note ci = call_stable[OF c, of g']
  show ?case
  proof (cases r0)
    case (Inl e)
    with Cons.prems c ci show ?thesis by auto
  next
    case (Inr y)
    obtain r2 ss2 g2 where l: "layers_call lb ss g0 y = (r2, ss2, g2)"
      by (cases "layers_call lb ss g0 y") auto
    from Cons.IH[OF l, of g'] Cons.prems c ci Inr l show ?thesis by auto
  qed
qed

lemma trajectory_call_stable:
  "trajectory_call lb ss g x = (r, ss1, g1) \<Longrightarrow> trajectory_call lb ss1 g' x = (r, ss1, g')"
proof -
  assume a: "trajectory_call lb ss g x = (r, ss1, g1)"
  obtain r0 ss0 g0 where l: "layers_call lb ss g x = (r0, ss0, g0)"
    by (cases "layers_call lb ss g x") auto
  from a l have e: "ss0 = ss1"
    by (cases r0) (auto simp: trajectory_call_def split: if_splits)
  from layers_call_stable[OF l, of g'] a l e show ?thesis
    by (cases r0) (auto simp: trajectory_call_def split: if_splits)
qed

lemma step_ready:
  assumes "initialized s" "step lb a (s, g) = (s', g')"
  shows "initialized s' \<and> batch_size s' = batch_size s"
proof (cases a)
  case (Call x)
  with assms call_initialized [of s lb g x] show ?thesis by simp
next
  case Resample
  with assms resample_fst [of lb s g] show ?thesis
    by (cases "resample lb s g") auto
next
  case Update
  with assms update_frame [of lb s g] show ?thesis by auto
qed

lemma run_ready:
  "initialized s \<Longrightarrow> run lb ops (s, g) = (s', g') \<Longrightarrow>
   initialized s' \<and> batch_size s' = batch_size s"
proof (induction ops arbitrary: s g)
  case Nil
  then show ?case by simp
next
  case (Cons a ops)
  obtain s1 g1 where st: "step lb a (s, g) = (s1, g1)" by (cases "step lb a (s, g)") auto
  from step_ready [OF Cons.prems(1) st] Cons.IH [of s1 g1] Cons.prems(2) st
  show ?case by simp
qed

lemma weight_sampler_call_fst:
  "fst (weight_sampler_call lb s B g) =
     (let ws = weight_sampler s;
          prior_weights = fst (random_normal [B, num_features s, ws_P ws] g);
          noise = fst (random_normal [B, ws_P ws, ws_M ws, 1]
                         (snd (random_normal [B, num_features s, ws_P ws] g)));
          u_sample0 = tadd (q_mu (layer s))
                        (matrix_transpose (select_last0 (matmul (q_sqrt (layer s)) noise)));
          u_sample = (if ws_whiten ws then matmul (cholesky lb (ws_Kmm ws)) u_sample0
                      else u_sample0);
          phi_Z = slice_cols
                    (ff_call lb (layer s) (feature_functions s) (inducing_points (layer s)))
                    (num_features s)
      in tf_concat 1 prior_weights
           (compute_A_inv_b lb (ws_Kmm ws) (tsub u_sample (matmul phi_Z prior_weights))))"
  by (simp add: weight_sampler_call_def Let_def split: prod.splits)





lemma well_shaped_prepare:
  "well_shaped lb gl \<Longrightarrow>
   prepare_weight_sampler lb gl =
     Inr \<lparr>ws_Kmm = gram lb gl, ws_whiten = whiten gl,
          ws_M = shape (q_mu gl) ! 0, ws_P = shape (q_mu gl) ! 1\<rparr>"
  by (simp add: well_shaped_def prepare_weight_sampler_def assert_shapes_def rank_def)

lemma well_shaped_rank: "well_shaped lb gl \<Longrightarrow> rank (inducing_points gl) = 2"
  by (simp add: well_shaped_def assert_shapes_def rank_def)

lemma ff_init_gp:
  "2 \<le> rank (inducing_points gl) \<Longrightarrow>
   ff_init lb (GPLayer gl) n g =
     (Inr \<lparr>n_components = n, rff_b = fst (draw [1, n] g),
           rff_W = fst (draw [n, last (shape (inducing_points gl))] (snd (draw [1, n] g)))\<rparr>,
      snd (draw [n, last (shape (inducing_points gl))] (snd (draw [1, n] g))))"
  by (simp add: ff_init_def bias_init_def sample_bias_def weights_init_def sample_weights_def
      draw_def Let_def)

lemma layer_init_constructible:
  assumes "constructible lb l"
  shows "\<exists>s g1. layer_init lb l n g = (Inr s, g1)"
proof -
  from assms obtain gl where l: "l = GPLayer gl" and w: "well_shaped lb gl"
    by (auto simp: constructible_def split: layer.splits)
  from well_shaped_rank [OF w] have "2 \<le> rank (inducing_points gl)" by simp
  from ff_init_gp [OF this, of lb n g] well_shaped_prepare [OF w] l show ?thesis
    by (simp add: layer_init_def)
qed

lemma layer_init_not_gp:
  "\<not> plain_gp_layer l \<Longrightarrow> layer_init lb l n g = (Inl UnsupportedLayer, g)"
  by (cases l) (simp_all add: layer_init_def plain_gp_layer_def)

lemma layers_init_fails:
  "\<exists>l \<in> set ls. \<not> plain_gp_layer l \<Longrightarrow> \<exists>e. fst (layers_init lb ls n g) = Inl e"
proof (induction ls arbitrary: g)
  case Nil
  then show ?case by simp
next
  case (Cons l ls)
  show ?case
  proof (cases "layer_init lb l n g")
    case (Pair r g1)
    show ?thesis
    proof (cases r)
      case (Inl e)
      with Pair show ?thesis by simp
    next
      case (Inr s)
      with Pair layer_init_not_gp [of l lb n g] have "plain_gp_layer l" by auto
      with Cons.prems have "\<exists>l \<in> set ls. \<not> plain_gp_layer l" by auto
      from Cons.IH [OF this, of g1] Pair Inr show ?thesis
        by (auto split: prod.splits sum.splits)
    qed
  qed
qed

lemma layers_init_unsupported:
  "\<exists>l \<in> set ls. \<not> plain_gp_layer l \<Longrightarrow>
   \<forall>l \<in> set (takeWhile plain_gp_layer ls). constructible lb l \<Longrightarrow>
   fst (layers_init lb ls n g) = Inl UnsupportedLayer"
proof (induction ls arbitrary: g)
  case Nil
  then show ?case by simp
next
  case (Cons l ls)
  show ?case
  proof (cases "plain_gp_layer l")
    case False
    then show ?thesis by (simp add: layer_init_not_gp)
  next
    case True
    with Cons.prems have c: "constructible lb l"
      and r: "\<exists>l \<in> set ls. \<not> plain_gp_layer l"
      and t: "\<forall>l \<in> set (takeWhile plain_gp_layer ls). constructible lb l"
      by auto
    from layer_init_constructible [OF c, of n g] obtain s g1
      where i: "layer_init lb l n g = (Inr s, g1)" by blast
    from Cons.IH [OF r t, of g1] i show ?thesis
      by (auto split: prod.splits sum.splits)
  qed
qed


lemma num_data_frame [simp]:
  "inducing_points (gl\<lparr>num_data := n\<rparr>) = inducing_points gl"
  by (simp add: inducing_points_def)

lemma update_layers_errors:
  assumes "\<forall>l \<in> set ls. wrapper_layer_ok l" "1 \<le> rank inputs" "1 \<le> rank (observations ds)"
    and "fst (update_layers ds n len i inputs ls) = Inl e"
  shows "e = InputDimensionMismatch \<or> e = ObservationDimensionMismatch"
  using assms
proof (induction ls arbitrary: i inputs)
  case Nil
  then show ?case by simp
next
  case (Cons l ls)
  show ?case
  proof (cases l)
    case (GPLayer gl)
    with Cons.prems(1) have ok: "1 \<le> rank (inducing_points gl)" "1 \<le> rank (q_mu gl)"
      "1 \<le> rank (forward gl inputs)" using Cons.prems(2)
      by (simp_all add: wrapper_layer_ok_def)
    from Cons.prems(1) have r: "\<forall>l \<in> set ls. wrapper_layer_ok l" by simp
    from Cons.IH [OF r ok(3) Cons.prems(3), of "Suc i"] Cons.prems(2,3,4) GPLayer ok
    show ?thesis
      by (auto simp: set_num_data_def split: if_splits prod.splits)
  next
    case (LatentVariableLayer k f)
    with Cons.prems(1,2) have ok: "1 \<le> rank (f inputs)"
      by (simp add: wrapper_layer_ok_def)
    from Cons.prems(1) have r: "\<forall>l \<in> set ls. wrapper_layer_ok l" by simp
    from Cons.IH [OF r ok Cons.prems(3), of "Suc i"] Cons.prems(4) LatentVariableLayer
    show ?thesis
      by (auto simp: set_num_data_def split: prod.splits)
  next
    case (OtherLayer k)
    with Cons.prems(1) show ?thesis by (simp add: wrapper_layer_ok_def)
  qed
qed

lemma update_layers_fails_iff:
  assumes "\<forall>l \<in> set ls. wrapper_layer_ok l" "1 \<le> rank inputs" "1 \<le> rank (observations ds)"
    and "len = i + length ls"
  shows "(\<exists>e. fst (update_layers ds n len i inputs ls) = Inl e) \<longleftrightarrow>
         (\<exists>pre gl post. ls = pre @ GPLayer gl # post \<and>
            (last (shape (fold layer_forward pre inputs)) \<noteq> last (shape (inducing_points gl)) \<or>
             (post = [] \<and> last (shape (observations ds)) \<noteq> last (shape (q_mu gl)))))"
  using assms
proof (induction ls arbitrary: i inputs)
  case Nil
  then show ?case by simp
next
  case (Cons l ls)
  from Cons.prems(1) have r: "\<forall>l \<in> set ls. wrapper_layer_ok l" by simp
  from Cons.prems(4) have len: "len = Suc i + length ls" by simp
  let ?bad = "\<lambda>inp ls. \<exists>pre gl post. ls = pre @ GPLayer gl # post \<and>
            (last (shape (fold layer_forward pre inp)) \<noteq> last (shape (inducing_points gl)) \<or>
             (post = [] \<and> last (shape (observations ds)) \<noteq> last (shape (q_mu gl))))"
  show ?case
  proof (cases l)
    case (GPLayer gl)
    with Cons.prems(1) have ok: "1 \<le> rank (inducing_points gl)" "1 \<le> rank (q_mu gl)"
      "1 \<le> rank (forward gl inputs)" using Cons.prems(2)
      by (simp_all add: wrapper_layer_ok_def)
    have last_iff: "i = len - 1 \<longleftrightarrow> ls = []" using Cons.prems(4) by auto
    let ?here = "last (shape inputs) \<noteq> last (shape (inducing_points gl)) \<or>
                 (ls = [] \<and> last (shape (observations ds)) \<noteq> last (shape (q_mu gl)))"
    have split: "?bad inputs (l # ls) \<longleftrightarrow> ?here \<or> ?bad (forward gl inputs) ls"
    proof
      assume "?bad inputs (l # ls)"
      then obtain pre gl' post where d: "l # ls = pre @ GPLayer gl' # post"
        and b: "last (shape (fold layer_forward pre inputs)) \<noteq> last (shape (inducing_points gl')) \<or>
             (post = [] \<and> last (shape (observations ds)) \<noteq> last (shape (q_mu gl')))"
        by blast
      show "?here \<or> ?bad (forward gl inputs) ls"
      proof (cases pre)
        case Nil
        with d b GPLayer show ?thesis by auto
      next
        case (Cons a pre')
        with d GPLayer have "ls = pre' @ GPLayer gl' # post" "a = GPLayer gl" by auto
        with b Cons show ?thesis by auto
      qed
    next
      assume "?here \<or> ?bad (forward gl inputs) ls"
      then show "?bad inputs (l # ls)"
      proof
        assume ?here
        then have "l # ls = [] @ GPLayer gl # ls \<and>
            (last (shape (fold layer_forward [] inputs)) \<noteq> last (shape (inducing_points gl)) \<or>
             (ls = [] \<and> last (shape (observations ds)) \<noteq> last (shape (q_mu gl))))"
          using GPLayer by simp
        then show ?thesis by blast
      next
        assume "?bad (forward gl inputs) ls"
        then obtain pre gl' post where "ls = pre @ GPLayer gl' # post"
          and "last (shape (fold layer_forward pre (forward gl inputs))) \<noteq>
                 last (shape (inducing_points gl')) \<or>
             (post = [] \<and> last (shape (observations ds)) \<noteq> last (shape (q_mu gl')))"
          by blast
        then have "l # ls = (l # pre) @ GPLayer gl' # post \<and>
            (last (shape (fold layer_forward (l # pre) inputs)) \<noteq>
                 last (shape (inducing_points gl')) \<or>
             (post = [] \<and> last (shape (observations ds)) \<noteq> last (shape (q_mu gl'))))"
          using GPLayer by simp
        then show ?thesis by blast
      qed
    qed
    have code: "(\<exists>e. fst (update_layers ds n len i inputs (l # ls)) = Inl e) \<longleftrightarrow>
          ?here \<or> (\<exists>e. fst (update_layers ds n len (Suc i) (forward gl inputs) ls) = Inl e)"
      using GPLayer ok Cons.prems(2,3) last_iff
      by (auto simp: set_num_data_def split: prod.splits)
    from Cons.IH [OF r ok(3) Cons.prems(3) len] split code show ?thesis by simp
  next
    case (LatentVariableLayer k f)
    with Cons.prems(1,2) have ok: "1 \<le> rank (f inputs)"
      by (simp add: wrapper_layer_ok_def)
    have split: "?bad inputs (l # ls) \<longleftrightarrow> ?bad (f inputs) ls"
    proof
      assume "?bad inputs (l # ls)"
      then obtain pre gl' post where d: "l # ls = pre @ GPLayer gl' # post"
        and b: "last (shape (fold layer_forward pre inputs)) \<noteq> last (shape (inducing_points gl')) \<or>
             (post = [] \<and> last (shape (observations ds)) \<noteq> last (shape (q_mu gl')))"
        by blast
      show "?bad (f inputs) ls"
      proof (cases pre)
        case Nil
        with d LatentVariableLayer show ?thesis by simp
      next
        case (Cons a pre')
        with d LatentVariableLayer have "ls = pre' @ GPLayer gl' # post"
          "a = LatentVariableLayer k f" by auto
        with b Cons show ?thesis by auto
      qed
    next
      assume "?bad (f inputs) ls"
      then obtain pre gl' post where "ls = pre @ GPLayer gl' # post"
        and "last (shape (fold layer_forward pre (f inputs))) \<noteq>
                 last (shape (inducing_points gl')) \<or>
             (post = [] \<and> last (shape (observations ds)) \<noteq> last (shape (q_mu gl')))"
        by blast
      then have "l # ls = (l # pre) @ GPLayer gl' # post \<and>
            (last (shape (fold layer_forward (l # pre) inputs)) \<noteq>
                 last (shape (inducing_points gl')) \<or>
             (post = [] \<and> last (shape (observations ds)) \<noteq> last (shape (q_mu gl'))))"
        using LatentVariableLayer by simp
      then show "?bad inputs (l # ls)" by blast
    qed
    have code: "(\<exists>e. fst (update_layers ds n len i inputs (l # ls)) = Inl e) \<longleftrightarrow>
          (\<exists>e. fst (update_layers ds n len (Suc i) (f inputs) ls) = Inl e)"
      using LatentVariableLayer by (auto simp: set_num_data_def split: prod.splits)
    from Cons.IH [OF r ok Cons.prems(3) len] split code show ?thesis by simp
  next
    case (OtherLayer k)
    with Cons.prems(1) show ?thesis by (simp add: wrapper_layer_ok_def)
  qed
qed


lemma shape_draw: "shape (fst (draw shp g)) = shp"
  by (simp add: draw_def)

lemma entry_draw: "entry (fst (draw shp g)) idx = g (ravel shp idx)"
  by (simp add: draw_def)

lemma snd_draw: "snd (draw shp g) = (\<lambda>k. g (k + prod_list shp))"
  by (simp add: draw_def)

lemma ff_resample_fst:
  "fst (ff_resample lb ff g) =
     ff\<lparr>rff_b := fst (draw (shape (rff_b ff)) g),
        rff_W := fst (draw (shape (rff_W ff)) (snd (draw (shape (rff_b ff)) g)))\<rparr>"
  by (simp add: ff_resample_def sample_bias_def sample_weights_def bias_init_def
      weights_init_def split: prod.splits)

lemma ff_init_bank_shapes:
  assumes "ff_init lb (GPLayer gl) L g0 = (Inr ff, g)"
  shows "bank_shapes ff (last (shape (inducing_points gl))) \<and> n_components ff = L"
proof -
  from assms have "2 \<le> rank (inducing_points gl)"
    by (auto simp: ff_init_def Let_def split: if_splits)
  from ff_init_gp [OF this, of lb L g0] assms show ?thesis
    by (auto simp: bank_shapes_def shape_draw)
qed

lemma shape_ff_call:
  assumes "fourier_shape_contract lb" "gram_shape_contract (the_kernel gl)"
  shows "shape (ff_call lb gl ff x) =
           [shape x ! 0, shape (rff_W ff) ! 0 + shape (inducing_points gl) ! 0]"
proof -
  from assms(1) have f: "shape (rff lb (the_kernel gl) (rff_W ff) (rff_b ff) x) =
      [shape x ! 0, shape (rff_W ff) ! 0]"
    by (simp add: fourier_shape_contract_def)
  from assms(2) have c: "shape (canonical_feature_functions gl x) =
      [shape x ! 0, shape (inducing_points gl) ! 0]"
    by (simp add: gram_shape_contract_def canonical_feature_functions_def matrix_transpose_def)
  from f c show ?thesis
    by (simp add: ff_call_def Let_def tf_concat_def rank_def)
qed

lemma sum_list_cong_upt:
  "(\<And>j. j < n \<Longrightarrow> f j = g j) \<Longrightarrow> (\<Sum>j\<leftarrow>[0..<n]. f j) = (\<Sum>j\<leftarrow>[0..<n]. (g j :: real))"
  by (rule arg_cong [where f = sum_list]) simp

lemma bproj_2_in_3:
  "m < M \<Longrightarrow> p < P \<Longrightarrow> bproj [M, P] [b, m, p] = [m, p]"
  by (auto simp: bproj_def)

lemma bproj_3_in_3:
  "b < B \<Longrightarrow> m < M \<Longrightarrow> p < P \<Longrightarrow> bproj [B, M, P] [b, m, p] = [b, m, p]"
  by (auto simp: bproj_def)

lemma broadcast_shape_2_3: "broadcast_shape [M, P] [B, M, P] = [B, M, P]"
  by (simp add: broadcast_shape_def)

lemma broadcast_shape_same_3: "broadcast_shape [B, M, P] [B, M, P] = [B, M, P]"
  by (simp add: broadcast_shape_def)

lemma shape_binop_2_3:
  "shape x = [M, P] \<Longrightarrow> shape y = [B, M, P] \<Longrightarrow> shape (binop f x y) = [B, M, P]"
  by (simp add: binop_def broadcast_shape_2_3)

lemma entry_binop_2_3:
  "shape x = [M, P] \<Longrightarrow> shape y = [B, M, P] \<Longrightarrow> b < B \<Longrightarrow> m < M \<Longrightarrow> p < P \<Longrightarrow>
   entry (binop f x y) [b, m, p] = f (entry x [m, p]) (entry y [b, m, p])"
  by (simp add: binop_def bproj_2_in_3 bproj_3_in_3)

lemma shape_binop_3_3:
  "shape x = [B, M, P] \<Longrightarrow> shape y = [B, M, P] \<Longrightarrow> shape (binop f x y) = [B, M, P]"
  by (simp add: binop_def broadcast_shape_same_3)

lemma entry_binop_3_3:
  "shape x = [B, M, P] \<Longrightarrow> shape y = [B, M, P] \<Longrightarrow> b < B \<Longrightarrow> m < M \<Longrightarrow> p < P \<Longrightarrow>
   entry (binop f x y) [b, m, p] = f (entry x [b, m, p]) (entry y [b, m, p])"
  by (simp add: binop_def bproj_3_in_3)

lemma shape_matmul_3_4:
  "shape x = [P, M, K] \<Longrightarrow> shape y = [B, P, K', C] \<Longrightarrow> shape (matmul x y) = [B, P, M, C]"
  by (simp add: matmul_def)

lemma entry_matmul_3_4:
  "shape x = [P, M, K] \<Longrightarrow> shape y = [B, P, K', C] \<Longrightarrow>
   entry (matmul x y) [b, p, m, c] = (\<Sum>t\<leftarrow>[0..<K]. entry x [p, m, t] * entry y [b, p, t, c])"
  by (simp add: matmul_def)

lemma shape_matmul_2_3:
  "shape x = [M, K] \<Longrightarrow> shape y = [B, K', P] \<Longrightarrow> shape (matmul x y) = [B, M, P]"
  by (simp add: matmul_def)

lemma entry_matmul_2_3:
  "shape x = [M, K] \<Longrightarrow> shape y = [B, K', P] \<Longrightarrow>
   entry (matmul x y) [b, m, p] = (\<Sum>t\<leftarrow>[0..<K]. entry x [m, t] * entry y [b, t, p])"
  by (simp add: matmul_def)

lemma shape_transpose_3:
  "shape t = [B, P, M] \<Longrightarrow> shape (matrix_transpose t) = [B, M, P]"
  by (simp add: matrix_transpose_def)

lemma entry_transpose_3:
  "shape t = [B, P, M] \<Longrightarrow> entry (matrix_transpose t) [b, m, p] = entry t [b, p, m]"
  by (simp add: matrix_transpose_def)

lemma shape_select_last0_4:
  "shape t = [B, P, M, C] \<Longrightarrow> shape (select_last0 t) = [B, P, M]"
  by (simp add: select_last0_def)

lemma entry_select_last0: "entry (select_last0 t) idx = entry t (idx @ [0])"
  by (simp add: select_last0_def)

lemma shape_concat_axis1_3:
  "shape x = [B, L, P] \<Longrightarrow> shape y = [B', M, P'] \<Longrightarrow> shape (tf_concat 1 x y) = [B, L + M, P]"
  by (simp add: tf_concat_def)

lemma entry_concat_axis1_low:
  "shape x = [B, L, P] \<Longrightarrow> l < L \<Longrightarrow> entry (tf_concat 1 x y) [b, l, p] = entry x [b, l, p]"
  by (simp add: tf_concat_def)

lemma entry_concat_axis1_high:
  "shape x = [B, L, P] \<Longrightarrow> entry (tf_concat 1 x y) [b, L + j, p] = entry y [b, j, p]"
  by (simp add: tf_concat_def)


lemma prepare_shapes:
  assumes "prepare_weight_sampler lb gl = Inr ws"
  shows "ws_Kmm ws = gram lb gl" "ws_whiten ws = whiten gl"
    "shape (inducing_points gl) = [ws_M ws, shape (inducing_points gl) ! 1]"
    "shape (q_mu gl) = [ws_M ws, ws_P ws]"
    "shape (q_sqrt gl) = [ws_P ws, ws_M ws, ws_M ws]"
    "shape (ws_Kmm ws) = [ws_M ws, ws_M ws]"
proof -
  from assms have a: "assert_shapes (inducing_points gl) (q_mu gl) (q_sqrt gl) (gram lb gl)"
    and w: "ws = \<lparr>ws_Kmm = gram lb gl, ws_whiten = whiten gl,
                ws_M = shape (q_mu gl) ! 0, ws_P = shape (q_mu gl) ! 1\<rparr>"
    by (auto simp: prepare_weight_sampler_def split: if_splits)
  from w show "ws_Kmm ws = gram lb gl" "ws_whiten ws = whiten gl" by simp_all
  from a have lz: "length (shape (inducing_points gl)) = 2"
    and lq: "length (shape (q_mu gl)) = 2"
    and m: "shape (q_mu gl) ! 0 = shape (inducing_points gl) ! 0"
    and qs: "shape (q_sqrt gl) = [shape (q_mu gl) ! 1, shape (inducing_points gl) ! 0,
               shape (inducing_points gl) ! 0]"
    and k: "shape (gram lb gl) = [shape (inducing_points gl) ! 0, shape (inducing_points gl) ! 0]"
    by (simp_all add: assert_shapes_def)
  from lz obtain z0 z1 where z: "shape (inducing_points gl) = [z0, z1]"
    by (cases "shape (inducing_points gl)"; cases "tl (shape (inducing_points gl))") auto
  from lq obtain q0 q1 where q: "shape (q_mu gl) = [q0, q1]"
    by (cases "shape (q_mu gl)"; cases "tl (shape (q_mu gl))") auto
  from z q m w show "shape (inducing_points gl) = [ws_M ws, shape (inducing_points gl) ! 1]"
    by simp
  from q w show "shape (q_mu gl) = [ws_M ws, ws_P ws]" by simp
  from qs z q m w show "shape (q_sqrt gl) = [ws_P ws, ws_M ws, ws_M ws]" by simp
  from k z q m w show "shape (ws_Kmm ws) = [ws_M ws, ws_M ws]" by simp
qed


lemma posterior_draw_entry:
  assumes "shape (q_mu gl) = [M, P]" "shape (q_sqrt gl) = [P, M, M]" "shape noise = [B, P, M, 1]"
    and "b < B" "m < M" "p < P"
  shows "entry (tadd (q_mu gl) (matrix_transpose (select_last0 (matmul (q_sqrt gl) noise))))
           [b, m, p] = posterior_draw gl noise b m p"
proof -
  let ?mm = "matmul (q_sqrt gl) noise"
  have s1: "shape ?mm = [B, P, M, 1]" by (rule shape_matmul_3_4 [OF assms(2) assms(3)])
  have s2: "shape (select_last0 ?mm) = [B, P, M]" by (rule shape_select_last0_4 [OF s1])
  have s3: "shape (matrix_transpose (select_last0 ?mm)) = [B, M, P]"
    by (rule shape_transpose_3 [OF s2])
  have "entry (tadd (q_mu gl) (matrix_transpose (select_last0 ?mm))) [b, m, p] =
          entry (q_mu gl) [m, p] + entry (matrix_transpose (select_last0 ?mm)) [b, m, p]"
    unfolding tadd_def by (rule entry_binop_2_3 [OF assms(1) s3 assms(4) assms(5) assms(6)])
  also have "entry (matrix_transpose (select_last0 ?mm)) [b, m, p] = entry ?mm [b, p, m, 0]"
    by (simp add: entry_transpose_3 [OF s2] entry_select_last0)
  also have "\<dots> = (\<Sum>j\<leftarrow>[0..<M]. entry (q_sqrt gl) [p, m, j] * entry noise [b, p, j, 0])"
    by (rule entry_matmul_3_4 [OF assms(2) assms(3)])
  finally show ?thesis using assms(1) by (simp add: posterior_draw_def)
qed

lemma posterior_draw_shape:
  assumes "shape (q_mu gl) = [M, P]" "shape (q_sqrt gl) = [P, M, M]" "shape noise = [B, P, M, 1]"
  shows "shape (tadd (q_mu gl) (matrix_transpose (select_last0 (matmul (q_sqrt gl) noise)))) =
           [B, M, P]"
proof -
  let ?mm = "matmul (q_sqrt gl) noise"
  have s1: "shape ?mm = [B, P, M, 1]" by (rule shape_matmul_3_4 [OF assms(2) assms(3)])
  have s2: "shape (select_last0 ?mm) = [B, P, M]" by (rule shape_select_last0_4 [OF s1])
  have s3: "shape (matrix_transpose (select_last0 ?mm)) = [B, M, P]"
    by (rule shape_transpose_3 [OF s2])
  show ?thesis unfolding tadd_def by (rule shape_binop_2_3 [OF assms(1) s3])
qed

lemma phi_Z_facts:
  assumes "fourier_shape_contract lb"
    and "shape (rff_W ff) ! 0 = L" and "shape Z ! 0 = M"
  shows "shape (slice_cols (ff_call lb gl ff Z) L) =
           [M, min L (L + shape (canonical_feature_functions gl Z) ! 1)]"
    and "l < L \<Longrightarrow> entry (slice_cols (ff_call lb gl ff Z) L) [m, l] =
           entry (rff lb (the_kernel gl) (rff_W ff) (rff_b ff) Z) [m, l]"
proof -
  from assms have f: "shape (rff lb (the_kernel gl) (rff_W ff) (rff_b ff) Z) = [M, L]"
    by (simp add: fourier_shape_contract_def)
  from f show "shape (slice_cols (ff_call lb gl ff Z) L) =
           [M, min L (L + shape (canonical_feature_functions gl Z) ! 1)]"
    by (simp add: slice_cols_def ff_call_def Let_def tf_concat_def rank_def)
  from f show "l < L \<Longrightarrow> entry (slice_cols (ff_call lb gl ff Z) L) [m, l] =
           entry (rff lb (the_kernel gl) (rff_W ff) (rff_b ff) Z) [m, l]"
    by (simp add: slice_cols_def ff_call_def Let_def tf_concat_def rank_def)
qed


lemma weight_sampler_call_residual:
  assumes qm: "shape (q_mu (layer s)) = [ws_M (weight_sampler s), ws_P (weight_sampler s)]"
    and qs: "shape (q_sqrt (layer s)) =
               [ws_P (weight_sampler s), ws_M (weight_sampler s), ws_M (weight_sampler s)]"
    and zm: "shape (inducing_points (layer s)) ! 0 = ws_M (weight_sampler s)"
    and bank: "shape (rff_W (feature_functions s)) ! 0 = num_features s"
    and four: "fourier_shape_contract lb"
    and chol: "ws_whiten (weight_sampler s) \<longrightarrow>
                 shape (cholesky lb (ws_Kmm (weight_sampler s))) =
                   [ws_M (weight_sampler s), ws_M (weight_sampler s)]"
    and prior: "prior = fst (random_normal [B, num_features s, ws_P (weight_sampler s)] g)"
    and noise: "noise = fst (random_normal
                  [B, ws_P (weight_sampler s), ws_M (weight_sampler s), 1]
                  (snd (random_normal [B, num_features s, ws_P (weight_sampler s)] g)))"
  shows "\<exists>d. fst (weight_sampler_call lb s B g) =
               tf_concat 1 prior (compute_A_inv_b lb (ws_Kmm (weight_sampler s)) d) \<and>
             shape prior = [B, num_features s, ws_P (weight_sampler s)] \<and>
             shape d = [B, ws_M (weight_sampler s), ws_P (weight_sampler s)] \<and>
             (\<forall>b < B. \<forall>m < ws_M (weight_sampler s). \<forall>p < ws_P (weight_sampler s).
                entry d [b, m, p] =
                  inducing_draw lb s noise b m p - prior_at_Z lb s prior b m p)"
proof -
  let ?ws = "weight_sampler s"
  let ?M = "ws_M ?ws" and ?P = "ws_P ?ws" and ?A = "ws_Kmm ?ws" and ?L = "num_features s"
  let ?gl = "layer s" and ?ff = "feature_functions s" and ?Z = "inducing_points (layer s)"
  have sp: "shape prior = [B, ?L, ?P]" by (simp add: prior random_normal_def shape_draw)
  have sn: "shape noise = [B, ?P, ?M, 1]" by (simp add: noise random_normal_def shape_draw)
  let ?pd = "tadd (q_mu ?gl) (matrix_transpose (select_last0 (matmul (q_sqrt ?gl) noise)))"
  let ?u = "if ws_whiten ?ws then matmul (cholesky lb ?A) ?pd else ?pd"
  let ?phi = "slice_cols (ff_call lb ?gl ?ff ?Z) ?L"
  let ?wsp = "matmul ?phi prior"
  let ?diff = "tsub ?u ?wsp"
  let ?v = "compute_A_inv_b lb ?A ?diff"
  have weq: "fst (weight_sampler_call lb s B g) = tf_concat 1 prior ?v"
    by (simp add: weight_sampler_call_fst Let_def prior noise)
  have spd: "shape ?pd = [B, ?M, ?P]" by (rule posterior_draw_shape [OF qm qs sn])
  have epd: "entry ?pd [b, m, p] = posterior_draw ?gl noise b m p"
    if "b < B" "m < ?M" "p < ?P" for b m p
    by (rule posterior_draw_entry [OF qm qs sn that])
  have su: "shape ?u = [B, ?M, ?P]"
  proof (cases "ws_whiten ?ws")
    case True
    with chol have c: "shape (cholesky lb ?A) = [?M, ?M]" by simp
    have "shape (matmul (cholesky lb ?A) ?pd) = [B, ?M, ?P]"
      by (rule shape_matmul_2_3 [OF c spd])
    with True show ?thesis by (simp only: if_True)
  next
    case False
    with spd show ?thesis by (simp only: if_False)
  qed
  have eu: "entry ?u [b, m, p] = inducing_draw lb s noise b m p"
    if "b < B" "m < ?M" "p < ?P" for b m p
  proof (cases "ws_whiten ?ws")
    case True
    with chol have c: "shape (cholesky lb ?A) = [?M, ?M]" by simp
    have "entry (matmul (cholesky lb ?A) ?pd) [b, m, p] =
        (\<Sum>t\<leftarrow>[0..<?M]. entry (cholesky lb ?A) [m, t] * entry ?pd [b, t, p])"
      by (rule entry_matmul_2_3 [OF c spd])
    also have "\<dots> = (\<Sum>t\<leftarrow>[0..<?M]. entry (cholesky lb ?A) [m, t] *
                         posterior_draw ?gl noise b t p)"
      by (rule sum_list_cong_upt) (simp add: epd that)
    finally show ?thesis using True by (simp add: inducing_draw_def)
  next
    case False
    with epd [OF that] show ?thesis by (simp add: inducing_draw_def)
  qed
  have sphi: "shape ?phi = [?M, ?L]"
    using phi_Z_facts(1) [OF four bank zm, of ?gl] by simp
  have ephi: "entry ?phi [m, l] =
      entry (rff lb (the_kernel ?gl) (rff_W ?ff) (rff_b ?ff) ?Z) [m, l]"
    if "l < ?L" for m l
    by (rule phi_Z_facts(2) [OF four bank zm that])
  have swsp: "shape ?wsp = [B, ?M, ?P]" by (rule shape_matmul_2_3 [OF sphi sp])
  have ewsp: "entry ?wsp [b, m, p] = prior_at_Z lb s prior b m p" for b m p
  proof -
    have "entry ?wsp [b, m, p] = (\<Sum>t\<leftarrow>[0..<?L]. entry ?phi [m, t] * entry prior [b, t, p])"
      by (rule entry_matmul_2_3 [OF sphi sp])
    also have "\<dots> = (\<Sum>t\<leftarrow>[0..<?L].
        entry (rff lb (the_kernel ?gl) (rff_W ?ff) (rff_b ?ff) ?Z) [m, t] * entry prior [b, t, p])"
      by (rule sum_list_cong_upt) (simp add: ephi)
    finally show ?thesis by (simp add: prior_at_Z_def)
  qed
  have sdiff: "shape ?diff = [B, ?M, ?P]"
    unfolding tsub_def by (rule shape_binop_3_3 [OF su swsp])
  have ediff: "entry ?diff [b, m, p] =
      inducing_draw lb s noise b m p - prior_at_Z lb s prior b m p"
    if "b < B" "m < ?M" "p < ?P" for b m p
  proof -
    have "entry ?diff [b, m, p] = entry ?u [b, m, p] - entry ?wsp [b, m, p]"
      unfolding tsub_def by (rule entry_binop_3_3 [OF su swsp that])
    with eu [OF that] ewsp show ?thesis by simp
  qed
  from weq sp sdiff ediff show ?thesis by blast
qed

section \<open>The concrete model\<close>

lemma sampler1_built: "layer_init lib1 (GPLayer (gp_layer1 1)) 1 rng0 = (Inr sampler1, rng2)"
  by (simp add: layer_init_def ff_init_def lib1_def gp_layer1_def inducing_points_def matrix1_def
      rank_def bias_init_def weights_init_def draw_def prepare_weight_sampler_def
      assert_shapes_def gram_def tadd_def binop_def scale_def tf_eye_def the_kernel_def
      linear_kernel_def broadcast_shape_def sampler1_def rng2_def rng0_def fun_eq_iff)

lemma shape_inputs: "shape input111 = [1, 1, 1]" "shape input121 = [1, 2, 1]"
  by (simp_all add: input111_def input121_def)

lemma sampler1_fresh: "\<not> initialized sampler1" "batch_size sampler1 = 0"
  by (simp_all add: sampler1_def)

lemma prepare_sampler1: "prepare_weight_sampler lib1 (layer sampler1) = Inr (weight_sampler sampler1)"
  by (simp add: sampler1_def gp_layer1_def prepare_weight_sampler_def assert_shapes_def gram_def
      inducing_points_def matrix1_def rank_def tadd_def binop_def scale_def tf_eye_def
      the_kernel_def linear_kernel_def broadcast_shape_def)

lemma constructible_layer1: "constructible lib1 (GPLayer (gp_layer1 1))"
  by (simp add: constructible_def well_shaped_def gp_layer1_def assert_shapes_def gram_def
      inducing_points_def matrix1_def tadd_def binop_def scale_def tf_eye_def
      the_kernel_def linear_kernel_def broadcast_shape_def lib1_def)

lemma sampler_of_layer1_built:
  "trajectory_sampler_init lib1
     (GPfluxPredictor (DeepGP \<lparr>model_num_data = 1, f_layers = [GPLayer (gp_layer1 1)]\<rparr>)) 1 world0 =
   (Inr sampler_of_layer1,
    world0\<lparr>rng_state := rng2, sampling_layers := (sampling_layers world0)(0 := [sampler1]),
      next_ref := 1\<rparr>)"
  using sampler1_built
  by (simp add: trajectory_sampler_init_def world0_def sampler_of_layer1_def)


lemma wide_layer_ok: "wrapper_layer_ok (GPLayer (wide_layer d p))"
  by (simp add: wrapper_layer_ok_def wide_layer_def inducing_points_def rank_def)

lemma lib1_fourier: "fourier_shape_contract lib1"
  by (simp add: fourier_shape_contract_def lib1_def)

lemma linear_kernel_gram: "gram_shape_contract (linear_kernel c)"
  by (simp add: gram_shape_contract_def linear_kernel_def)

lemma layer1_kernel: "the_kernel (gp_layer1 c) = linear_kernel c"
  by (simp add: the_kernel_def gp_layer1_def)

lemma layer1_inducing: "inducing_points (gp_layer1 c) = matrix1 1"
  by (simp add: inducing_points_def gp_layer1_def)

lemma sampler1_bank: "bank_shapes (feature_functions sampler1) 1"
  by (simp add: bank_shapes_def sampler1_def shape_draw)

lemma gram_layer1: "gram lib1 (gp_layer1 c) = Tensor [1, 1]
    (\<lambda>idx. c * (entry (matrix1 1) [bproj [1, 1] idx ! 0, 0] * entry (matrix1 1) [bproj [1, 1] idx ! 1, 0]) +
       1 / 1000000 * (if bproj [1, 1] idx ! 0 = bproj [1, 1] idx ! 1 then 1 else 0))"
  by (simp add: gram_def layer1_kernel layer1_inducing linear_kernel_def tadd_def binop_def
      scale_def tf_eye_def broadcast_shape_def matrix1_def lib1_def)

lemma gram_layer1_entry: "entry (gram lib1 (gp_layer1 c)) [0, 0] = c + 1 / 1000000"
  by (simp add: gram_layer1 bproj_def matrix1_def)

lemma solves_lib1:
  assumes "entry A [0, 0] \<noteq> 0"
  shows "solves lib1 A B 1 P"
  using assms by (simp add: solves_def lib1_def)

lemma sampler1_closure:
  "weight_sampler sampler1 =
     \<lparr>ws_Kmm = gram lib1 (gp_layer1 1), ws_whiten = False, ws_M = 1, ws_P = 1\<rparr>"
  "num_features sampler1 = 1" "layer sampler1 = gp_layer1 1"
  by (simp_all add: sampler1_def)

lemma sampler1_refit_fields:
  "layer sampler1_refit = gp_layer1 2" "weight_sampler sampler1_refit = weight_sampler sampler1"
  "num_features sampler1_refit = 1" "batch_size sampler1_refit = 1"
  "initialized sampler1_refit" "feature_functions sampler1_refit = feature_functions sampler1"
proof -
  have r: "2 \<le> rank input111" and b: "shape input111 ! (rank input111 - 2) = 1"
    by (simp_all add: rank_def shape_inputs)
  note c = call_uninitialized [OF sampler1_fresh(1) r, of lib1 rng2]
  from c b show "layer sampler1_refit = gp_layer1 2"
    "weight_sampler sampler1_refit = weight_sampler sampler1"
    "num_features sampler1_refit = 1" "batch_size sampler1_refit = 1"
    "initialized sampler1_refit" "feature_functions sampler1_refit = feature_functions sampler1"
    by (simp_all add: sampler1_refit_def resample_fst sampler1_closure)
qed

lemma prepare_layer1:
  "prepare_weight_sampler lib1 (gp_layer1 c) =
     Inr \<lparr>ws_Kmm = gram lib1 (gp_layer1 c), ws_whiten = False, ws_M = 1, ws_P = 1\<rparr>"
  by (simp add: gp_layer1_def prepare_weight_sampler_def assert_shapes_def gram_def
      inducing_points_def matrix1_def rank_def tadd_def binop_def scale_def tf_eye_def
      the_kernel_def linear_kernel_def broadcast_shape_def lib1_def)

lemma layer1_parameters:
  "q_mu (gp_layer1 c) = matrix1 2" "q_sqrt (gp_layer1 c) = Tensor [1, 1, 1] (\<lambda>idx. 1)"
  by (simp_all add: gp_layer1_def)

lemma layer1_weights:
  assumes "layer s = gp_layer1 c" "num_features s = 1"
    and "feature_functions s = feature_functions sampler1"
    and "weight_sampler s = \<lparr>ws_Kmm = A, ws_whiten = False, ws_M = 1, ws_P = 1\<rparr>"
  shows "entry (fst (weight_sampler_call lib1 s 1 rng0)) [0, 1, 0] = 3 / entry A [0, 0]"
proof -
  let ?prior = "fst (random_normal [1, num_features s, ws_P (weight_sampler s)] rng0)"
  let ?noise = "fst (random_normal [1, ws_P (weight_sampler s), ws_M (weight_sampler s), 1]
                  (snd (random_normal [1, num_features s, ws_P (weight_sampler s)] rng0)))"
  have qm: "shape (q_mu (layer s)) = [ws_M (weight_sampler s), ws_P (weight_sampler s)]"
    and qs: "shape (q_sqrt (layer s)) =
               [ws_P (weight_sampler s), ws_M (weight_sampler s), ws_M (weight_sampler s)]"
    and zm: "shape (inducing_points (layer s)) ! 0 = ws_M (weight_sampler s)"
    and bank: "shape (rff_W (feature_functions s)) ! 0 = num_features s"
    and chol: "ws_whiten (weight_sampler s) \<longrightarrow>
                 shape (cholesky lib1 (ws_Kmm (weight_sampler s))) =
                   [ws_M (weight_sampler s), ws_M (weight_sampler s)]"
    using assms
    by (simp_all add: layer1_parameters matrix1_def layer1_inducing sampler1_def shape_draw)
  from weight_sampler_call_residual [OF qm qs zm bank lib1_fourier chol refl refl, of 1 rng0]
  obtain d where w: "fst (weight_sampler_call lib1 s 1 rng0) =
        tf_concat 1 ?prior (compute_A_inv_b lib1 (ws_Kmm (weight_sampler s)) d)"
    and sp: "shape ?prior = [1, num_features s, ws_P (weight_sampler s)]"
    and ed: "entry d [0, 0, 0] =
        inducing_draw lib1 s ?noise 0 0 0 - prior_at_Z lib1 s ?prior 0 0 0"
    using assms(4) by auto
  have i: "inducing_draw lib1 s ?noise 0 0 0 = 3"
    using assms
    by (simp add: inducing_draw_def posterior_draw_def layer1_parameters matrix1_def
        random_normal_def entry_draw snd_draw rng0_def)
  have p: "prior_at_Z lib1 s ?prior 0 0 0 = 0"
    using assms
    by (simp add: prior_at_Z_def random_normal_def entry_draw rng0_def)
  from sp assms(2) have "entry (tf_concat 1 ?prior (compute_A_inv_b lib1 (ws_Kmm (weight_sampler s)) d))
      [0, 1, 0] = entry (compute_A_inv_b lib1 (ws_Kmm (weight_sampler s)) d) [0, 0, 0]"
    by (simp add: tf_concat_def)
  also have "\<dots> = entry d [0, 0, 0] / entry A [0, 0]"
    using assms(4) by (simp add: lib1_def)
  finally show ?thesis using w ed i p by simp
qed

section \<open>Update and resample\<close>

text \<open>
  C1 (as amended). Neither \<open>update\<close> nor \<open>resample\<close> of a decoupled layer sampler
  touches the feature bank: the frequencies \<open>W\<close> and the phases \<open>b\<close> are after the
  call what they were before. Both replace the cached weights by one new draw of the
  weight sampler for the current batch size; \<open>update\<close> first rebuilds the weight
  sampler from the layer's current parameters and draws with the rebuilt one.
\<close>

theorem update_and_resample_keep_features:
  "feature_functions (fst (resample lb s g)) = feature_functions s \<and>
   weights_sample (fst (resample lb s g)) = fst (weight_sampler_call lb s (batch_size s) g) \<and>
   feature_functions (fst (snd (update lb s g))) = feature_functions s \<and>
   (\<forall>ws. prepare_weight_sampler lb (layer s) = Inr ws \<longrightarrow>
         fst (update lb s g) = Inr () \<and>
         weight_sampler (fst (snd (update lb s g))) = ws \<and>
         weights_sample (fst (snd (update lb s g))) =
           fst (weight_sampler_call lb (s\<lparr>weight_sampler := ws\<rparr>) (batch_size s) g))"
  by (simp add: resample_fst update_frame update_ok)

theorem update_and_resample_keep_features_witness:
  "prepare_weight_sampler lib1 (layer sampler1) = Inr (weight_sampler sampler1) \<and>
   feature_functions (fst (resample lib1 sampler1 rng2)) = feature_functions sampler1 \<and>
   feature_functions (fst (snd (update lib1 sampler1 rng2))) = feature_functions sampler1 \<and>
   fst (update lib1 sampler1 rng2) = Inr () \<and>
   weights_sample (fst (snd (update lib1 sampler1 rng2))) =
     fst (weight_sampler_call lib1 (sampler1\<lparr>weight_sampler := weight_sampler sampler1\<rparr>) (batch_size sampler1) rng2)"
  using update_and_resample_keep_features [of lib1 sampler1 rng2] prepare_sampler1 by simp

theorem update_redraws_features_counterexample:
  "fst (update lib1 sampler1 rng2) = Inr () \<and>
   entry (rff_W (feature_functions sampler1)) [0, 0] = 1 \<and>
   entry (rff_W (feature_functions (fst (snd (update lib1 sampler1 rng2))))) [0, 0] = 1 \<and>
   entry (rff_W (fst (ff_resample lib1 (feature_functions sampler1) rng2))) [0, 0] = 3 \<and>
   entry (rff_b (feature_functions sampler1)) [0, 0] = 0 \<and>
   entry (rff_b (feature_functions (fst (snd (update lib1 sampler1 rng2))))) [0, 0] = 0 \<and>
   entry (rff_b (fst (ff_resample lib1 (feature_functions sampler1) rng2))) [0, 0] = 2"
proof -
  have u: "fst (update lib1 sampler1 rng2) = Inr ()"
    by (simp add: update_ok [OF prepare_sampler1])
  have f: "feature_functions (fst (snd (update lib1 sampler1 rng2))) = feature_functions sampler1"
    by (simp add: update_frame)
  have w: "entry (rff_W (feature_functions sampler1)) [0, 0] = 1"
    and b: "entry (rff_b (feature_functions sampler1)) [0, 0] = 0"
    by (simp_all add: sampler1_def draw_def rng0_def)
  have r: "entry (rff_W (fst (ff_resample lib1 (feature_functions sampler1) rng2))) [0, 0] = 3"
    "entry (rff_b (fst (ff_resample lib1 (feature_functions sampler1) rng2))) [0, 0] = 2"
    by (simp_all add: ff_resample_def lib1_def sampler1_def bias_init_def weights_init_def draw_def rng2_def)
  from u f w b r show ?thesis by simp
qed


section \<open>The batch size\<close>

text \<open>
  C4. The first call of a decoupled layer sampler, with an input of shape [N, B, D],
  makes \<open>B\<close> its batch size and the sampler initialised; whatever is done with the
  sampler afterwards (calls, resamples, updates), the batch size stays \<open>B\<close>, and every
  call whose input has a batch dimension other than \<open>B\<close> raises the batch size mismatch
  (the condition ShapeMismatch) and produces no output, leaving the state as it was.
\<close>

theorem batch_size_fixed_by_first_call:
  assumes "\<not> initialized s" and "shape x = [N, B, D]"
    and "call lb s g x = (r, s1, g1)"
    and "run lb ops (s1, g1) = (s2, g2)"
  shows "initialized s2 \<and> batch_size s2 = B \<and>
         (\<forall>x' N' B' D'. shape x' = [N', B', D'] \<and> B' \<noteq> B \<longrightarrow>
            call lb s2 g2 x' = (Inl BatchSizeMismatch, s2, g2))"
proof -
  from assms(2) have rk: "2 \<le> rank x" and b: "shape x ! (rank x - 2) = B"
    by (simp_all add: rank_def)
  from call_uninitialized [OF assms(1) rk, of lb g] assms(3) b
  have "initialized s1" "batch_size s1 = B"
    by (auto simp: resample_fst)
  with run_ready [OF _ assms(4)] have i: "initialized s2" and bs: "batch_size s2 = B"
    by simp_all
  have "call lb s2 g2 x' = (Inl BatchSizeMismatch, s2, g2)"
    if "shape x' = [N', B', D']" "B' \<noteq> B" for x' N' B' D'
  proof -
    from that have "2 \<le> rank x'" "shape x' ! (rank x' - 2) \<noteq> batch_size s2"
      by (simp_all add: rank_def bs)
    with call_ready [OF i, of x' lb g2] show ?thesis by simp
  qed
  with i bs show ?thesis by blast
qed


theorem batch_size_fixed_by_first_call_witness:
  "\<not> initialized sampler1 \<and> shape input111 = [1, 1, 1] \<and>
   initialized (fst (run lib1 [Resample, Call input121, Update] (snd (call lib1 sampler1 rng2 input111)))) \<and>
   batch_size (fst (run lib1 [Resample, Call input121, Update] (snd (call lib1 sampler1 rng2 input111)))) = 1 \<and>
   fst (call lib1
         (fst (run lib1 [Resample, Call input121, Update] (snd (call lib1 sampler1 rng2 input111))))
         (snd (run lib1 [Resample, Call input121, Update] (snd (call lib1 sampler1 rng2 input111))))
         input121) = Inl BatchSizeMismatch"
proof -
  obtain r s' g' where c: "call lib1 sampler1 rng2 input111 = (r, s', g')"
    by (cases "call lib1 sampler1 rng2 input111") auto
  obtain s'' g'' where rn: "run lib1 [Resample, Call input121, Update] (s', g') = (s'', g'')"
    by (cases "run lib1 [Resample, Call input121, Update] (s', g')") auto
  from batch_size_fixed_by_first_call [OF sampler1_fresh(1) shape_inputs(1) c rn]
  have "initialized s''" "batch_size s'' = 1"
    "call lib1 s'' g'' input121 = (Inl BatchSizeMismatch, s'', g'')"
    using shape_inputs(2) by auto
  with c rn sampler1_fresh(1) shape_inputs(1) show ?thesis by simp
qed






section \<open>Determinism of a fixed draw\<close>

text \<open>
  C7. An evaluation of a trajectory, repeated on the same input from the state the first
  evaluation left (no resample or update in between), returns the same result and leaves
  the layer samplers and the random state untouched, whatever the random state is; and an
  initialised layer sampler evaluates without changing its cached weights, its feature
  parameters or the random state.
\<close>

theorem evaluation_is_deterministic:
  "(trajectory_call lb ss g x = (r, ss1, g1) \<longrightarrow>
      trajectory_call lb ss1 g1 x = (r, ss1, g1) \<and>
      (\<forall>g'. trajectory_call lb ss1 g' x = (r, ss1, g'))) \<and>
   (initialized s \<longrightarrow> snd (call lb s g x) = (s, g))"
  using trajectory_call_stable [of lb ss g x r ss1 g1] call_initialized [of s lb g x]
  by blast

theorem evaluation_is_deterministic_witness:
  "trajectory_call lib1 (fst (snd (trajectory_call lib1 [sampler1] rng2 input111)))
       (snd (snd (trajectory_call lib1 [sampler1] rng2 input111))) input111 =
     trajectory_call lib1 [sampler1] rng2 input111 \<and>
   initialized (fst (snd (call lib1 sampler1 rng2 input111))) \<and>
   snd (call lib1 (fst (snd (call lib1 sampler1 rng2 input111))) rng2 input111) =
     (fst (snd (call lib1 sampler1 rng2 input111)), rng2)"
proof -
  obtain r ss1 g1 where t: "trajectory_call lib1 [sampler1] rng2 input111 = (r, ss1, g1)"
    by (cases "trajectory_call lib1 [sampler1] rng2 input111") auto
  have i: "initialized (fst (snd (call lib1 sampler1 rng2 input111)))"
    using call_uninitialized [OF sampler1_fresh(1), of input111 lib1 rng2]
    by (simp add: rank_def shape_inputs resample_fst)
  from evaluation_is_deterministic [of lib1 "[sampler1]" rng2 input111 r ss1 g1
      "fst (snd (call lib1 sampler1 rng2 input111))"] t i
  show ?thesis by simp
qed


section \<open>The trajectory sampler\<close>

text \<open>
  C5. Constructing the decoupled trajectory sampler over a deep GP model in which some
  layer is not a plain GP layer never succeeds: the constructor raises, no list of layer
  samplers is stored and no trajectory object exists afterwards. With a positive number
  of features, and the GP layers in front of the first other layer accepted by the layer
  sampler's constructor, the exception is the one for an unsupported layer (the condition
  Unsupported).
\<close>

theorem unsupported_layer_rejected_at_construction:
  assumes "l \<in> set (f_layers dgp)" and "\<not> plain_gp_layer l"
  shows "(\<exists>e. fst (trajectory_sampler_init lb (GPfluxPredictor (DeepGP dgp)) n w) = Inl e) \<and>
         objects (snd (trajectory_sampler_init lb (GPfluxPredictor (DeepGP dgp)) n w)) = objects w \<and>
         sampling_layers (snd (trajectory_sampler_init lb (GPfluxPredictor (DeepGP dgp)) n w)) =
           sampling_layers w \<and>
         (0 < n \<and> (\<forall>l' \<in> set (takeWhile plain_gp_layer (f_layers dgp)). constructible lb l') \<longrightarrow>
            fst (trajectory_sampler_init lb (GPfluxPredictor (DeepGP dgp)) n w) =
              Inl UnsupportedLayer)"
proof -
  from assms have ex: "\<exists>l \<in> set (f_layers dgp). \<not> plain_gp_layer l" by blast
  obtain r g1 where li: "layers_init lb (f_layers dgp) (nat n) (rng_state w) = (r, g1)"
    by (cases "layers_init lb (f_layers dgp) (nat n) (rng_state w)") auto
  from layers_init_fails [OF ex, of lb "nat n" "rng_state w"] li
  obtain e where e: "r = Inl e" by auto
  have u: "r = Inl UnsupportedLayer"
    if "\<forall>l' \<in> set (takeWhile plain_gp_layer (f_layers dgp)). constructible lb l'"
    using layers_init_unsupported [OF ex that, of "nat n" "rng_state w"] li by simp
  from li e u show ?thesis
    by (auto simp: trajectory_sampler_init_def)
qed


theorem unsupported_layer_rejected_at_construction_witness:
  "LatentVariableLayer 1 zero_mean \<in> set (f_layers dgp_with_latent_layer) \<and>
   \<not> plain_gp_layer (LatentVariableLayer 1 zero_mean) \<and>
   fst (trajectory_sampler_init lib1 (GPfluxPredictor (DeepGP dgp_with_latent_layer)) 1 world0) =
     Inl UnsupportedLayer \<and>
   objects (snd (trajectory_sampler_init lib1 (GPfluxPredictor (DeepGP dgp_with_latent_layer)) 1
                   world0)) = objects world0"
proof -
  have m: "LatentVariableLayer 1 zero_mean \<in> set (f_layers dgp_with_latent_layer)"
    by (simp add: dgp_with_latent_layer_def)
  have n: "\<not> plain_gp_layer (LatentVariableLayer 1 zero_mean)"
    by (simp add: plain_gp_layer_def)
  have t: "\<forall>l' \<in> set (takeWhile plain_gp_layer (f_layers dgp_with_latent_layer)).
             constructible lib1 l'"
    using constructible_layer1 by (simp add: dgp_with_latent_layer_def plain_gp_layer_def)
  from unsupported_layer_rejected_at_construction [OF m n, of lib1 1 world0] t m n
  show ?thesis by simp
qed






section \<open>The update of the model wrapper\<close>

text \<open>
  C9 (as amended). On a well-formed model and dataset, \<open>update\<close> of the deep GP wrapper
  raises exactly when, at some GP layer, the trailing dimension of the inputs that reach
  the layer (the new query points at the first layer, the output of the layers in front
  of it otherwise) differs from the trailing dimension of the layer's inducing points, or
  the layer is the last one and the trailing dimension of the new observations differs
  from that of its variational mean. The exception is one of the two shape mismatch
  errors, raised in the loop where the mismatch is found.
\<close>

theorem dgp_update_fails_on_dimension_mismatch:
  assumes "\<forall>l \<in> set (f_layers m). wrapper_layer_ok l"
    and "1 \<le> rank (query_points ds)" and "1 \<le> rank (observations ds)"
  shows "((\<exists>e. fst (dgp_update m ds) = Inl e) \<longleftrightarrow>
          (\<exists>pre gl post. f_layers m = pre @ GPLayer gl # post \<and> mismatch_at ds pre gl post)) \<and>
         (\<forall>e. fst (dgp_update m ds) = Inl e \<longrightarrow>
            e = InputDimensionMismatch \<or> e = ObservationDimensionMismatch)"
proof -
  let ?r = "update_layers ds (shape (query_points ds) ! 0) (length (f_layers m)) 0
              (query_points ds) (f_layers m)"
  from assms(2) have f: "fst (dgp_update m ds) = fst ?r"
    by (simp add: dgp_update_def Let_def split: prod.splits)
  have len: "length (f_layers m) = 0 + length (f_layers m)" by simp
  from update_layers_fails_iff [OF assms(1) assms(2) assms(3) len, of "shape (query_points ds) ! 0"]
  have a: "(\<exists>e. fst ?r = Inl e) \<longleftrightarrow>
      (\<exists>pre gl post. f_layers m = pre @ GPLayer gl # post \<and> mismatch_at ds pre gl post)"
    by (simp add: mismatch_at_def inputs_after_def)
  from update_layers_errors [OF assms(1) assms(2) assms(3)]
  have b: "\<forall>e. fst ?r = Inl e \<longrightarrow>
            e = InputDimensionMismatch \<or> e = ObservationDimensionMismatch"
    by blast
  from a b f show ?thesis by simp
qed


theorem dgp_update_fails_on_dimension_mismatch_witness:
  "wrapper_layer_ok (GPLayer (wide_layer 2 3)) \<and> wrapper_layer_ok (GPLayer (wide_layer 3 1)) \<and>
   1 \<le> rank (query_points (data_5 2 4)) \<and> 1 \<le> rank (observations (data_5 2 4)) \<and>
   mismatch_at (data_5 2 4) [GPLayer (wide_layer 2 3)] (wide_layer 3 1) [] \<and>
   (fst (dgp_update dgp_2_3_1 (data_5 2 4)) = Inl InputDimensionMismatch \<or>
    fst (dgp_update dgp_2_3_1 (data_5 2 4)) = Inl ObservationDimensionMismatch)"
proof -
  have l: "\<forall>l \<in> set (f_layers dgp_2_3_1). wrapper_layer_ok l"
    by (simp add: dgp_2_3_1_def wide_layer_ok)
  have q: "1 \<le> rank (query_points (data_5 2 4))" and o: "1 \<le> rank (observations (data_5 2 4))"
    by (simp_all add: data_5_def rank_def)
  have mm: "mismatch_at (data_5 2 4) [GPLayer (wide_layer 2 3)] (wide_layer 3 1) []"
    by (simp add: mismatch_at_def data_5_def wide_layer_def)
  have d: "f_layers dgp_2_3_1 = [GPLayer (wide_layer 2 3)] @ GPLayer (wide_layer 3 1) # []"
    by (simp add: dgp_2_3_1_def)
  from d mm have "\<exists>pre gl post. f_layers dgp_2_3_1 = pre @ GPLayer gl # post \<and>
      mismatch_at (data_5 2 4) pre gl post" by blast
  with dgp_update_fails_on_dimension_mismatch [OF l q o]
  have "fst (dgp_update dgp_2_3_1 (data_5 2 4)) = Inl InputDimensionMismatch \<or>
    fst (dgp_update dgp_2_3_1 (data_5 2 4)) = Inl ObservationDimensionMismatch"
    by blast
  with wide_layer_ok q o mm show ?thesis by simp
qed

theorem dgp_update_query_dimension_counterexample:
  "f_layers dgp_2_3_1 = [GPLayer (wide_layer 2 3), GPLayer (wide_layer 3 1)] \<and>
   last (shape (query_points (data_5 2 1))) = 2 \<and>
   last (shape (inducing_points (wide_layer 3 1))) = 3 \<and>
   fst (dgp_update dgp_2_3_1 (data_5 2 1)) = Inr ()"
  by (simp add: dgp_2_3_1_def data_5_def wide_layer_def inducing_points_def dgp_update_def
      rank_def set_num_data_def)


section \<open>The feature bank\<close>

text \<open>
  C8. \<open>resample\<close> of the feature bank assigns new draws to the variables \<open>W\<close> and \<open>b\<close>
  and changes nothing else: the feature count \<open>L\<close> and the shapes of \<open>W\<close> and \<open>b\<close>
  are as before (the inducing points belong to the layer, which is not touched), every
  evaluation has the same shape after as before, and for an input of shape [N, D] that
  shape is [N, L + M].
\<close>

theorem feature_resample_keeps_shapes:
  assumes "bank_shapes ff D"
    and "ff_resample lb ff g = (ff', g')"
    and "fourier_shape_contract lb" and "gram_shape_contract (the_kernel gl)"
    and "shape (inducing_points gl) = [M, D]" and "shape x = [N, D]"
  shows "n_components ff' = n_components ff \<and>
         shape (rff_W ff') = shape (rff_W ff) \<and> shape (rff_b ff') = shape (rff_b ff) \<and>
         bank_shapes ff' D \<and>
         (\<forall>y. shape (ff_call lb gl ff' y) = shape (ff_call lb gl ff y)) \<and>
         shape (ff_call lb gl ff x) = [N, n_components ff + M] \<and>
         shape (ff_call lb gl ff' x) = [N, n_components ff + M]"
proof -
  from assms(2) ff_resample_fst [of lb ff g]
  have ff': "ff' = ff\<lparr>rff_b := fst (draw (shape (rff_b ff)) g),
        rff_W := fst (draw (shape (rff_W ff)) (snd (draw (shape (rff_b ff)) g)))\<rparr>"
    by simp
  then have k: "n_components ff' = n_components ff" "shape (rff_W ff') = shape (rff_W ff)"
    "shape (rff_b ff') = shape (rff_b ff)"
    by (simp_all add: shape_draw)
  with assms(1) have b: "bank_shapes ff' D" by (simp add: bank_shapes_def)
  from k(2) have e: "\<forall>y. shape (ff_call lb gl ff' y) = shape (ff_call lb gl ff y)"
    by (simp add: shape_ff_call [OF assms(3) assms(4)])
  from assms(1,5,6) have s: "shape (ff_call lb gl ff x) = [N, n_components ff + M]"
    by (simp add: shape_ff_call [OF assms(3) assms(4)] bank_shapes_def)
  from k b e s show ?thesis by simp
qed


theorem feature_resample_keeps_shapes_witness:
  "bank_shapes (feature_functions sampler1) 1 \<and>
   fourier_shape_contract lib1 \<and> gram_shape_contract (the_kernel (gp_layer1 1)) \<and>
   n_components (fst (ff_resample lib1 (feature_functions sampler1) rng2)) = 1 \<and>
   shape (ff_call lib1 (gp_layer1 1) (feature_functions sampler1) input_3) = [3, 2] \<and>
   shape (ff_call lib1 (gp_layer1 1) (fst (ff_resample lib1 (feature_functions sampler1) rng2))
            input_3) = [3, 2]"
proof -
  obtain ff' g' where r: "ff_resample lib1 (feature_functions sampler1) rng2 = (ff', g')"
    by (cases "ff_resample lib1 (feature_functions sampler1) rng2") auto
  have k: "gram_shape_contract (the_kernel (gp_layer1 1))"
    by (simp add: layer1_kernel linear_kernel_gram)
  have z: "shape (inducing_points (gp_layer1 1)) = [1, 1]"
    by (simp add: layer1_inducing matrix1_def)
  have x: "shape input_3 = [3, 1]" by (simp add: input_3_def)
  have n: "n_components (feature_functions sampler1) = 1" by (simp add: sampler1_def)
  from feature_resample_keeps_shapes [OF sampler1_bank r lib1_fourier k z x] n r
    sampler1_bank lib1_fourier k
  show ?thesis by simp
qed


section \<open>The weight sampler\<close>

text \<open>
  C2 (as amended). For a layer sampler whose layer has the parameter shapes that the
  weight sampler was prepared with (\<open>q_mu\<close> of shape [M, P], \<open>q_sqrt\<close> of shape
  [P, M, M], \<open>M\<close> inducing points), initialised or not, refitted since or not, and every
  batch size \<open>B\<close>, one call of the weight sampler returns a tensor \<open>w\<close> of shape
  [B, L + M, P]. Its first \<open>L\<close> rows are the prior weights, the draw of shape [B, L, P]
  from the normal sampler; its last \<open>M\<close> rows \<open>v\<close> satisfy
  \<open>K * v = u - \<Phi>(Z) * prior\<close>, where \<open>K\<close> is the Gram matrix that the weight sampler
  holds, \<open>u = q_mu + q_sqrt * noise\<close> for the second normal draw and the layer's current
  variational parameters, multiplied from the left by the Cholesky factor of \<open>K\<close> when
  the whiten flag that the weight sampler holds is set, and \<open>\<Phi>(Z)\<close> are the Fourier
  features at the layer's current inducing points. The matrix \<open>K\<close> and the flag are
  those of the layer as it was when the weight sampler was prepared: \<open>K\<close> is
  \<open>K(Z, Z) + jitter * I\<close> of the layer as it is now when the weight sampler is the one
  prepared from the layer as it is now. The library's part is assumed: the shape of the
  Fourier features, the shape of the Cholesky factor, and that \<open>compute_A_inv_b\<close>
  solves the system for \<open>K\<close>.
\<close>

theorem weight_sampler_is_matheron_draw:
  assumes qm: "shape (q_mu (layer s)) = [ws_M (weight_sampler s), ws_P (weight_sampler s)]"
    and qs: "shape (q_sqrt (layer s)) =
               [ws_P (weight_sampler s), ws_M (weight_sampler s), ws_M (weight_sampler s)]"
    and zm: "shape (inducing_points (layer s)) ! 0 = ws_M (weight_sampler s)"
    and bank: "shape (rff_W (feature_functions s)) ! 0 = num_features s"
    and four: "fourier_shape_contract lb"
    and solv: "solves lb (ws_Kmm (weight_sampler s)) B (ws_M (weight_sampler s))
                 (ws_P (weight_sampler s))"
    and chol: "ws_whiten (weight_sampler s) \<longrightarrow>
                 shape (cholesky lb (ws_Kmm (weight_sampler s))) =
                   [ws_M (weight_sampler s), ws_M (weight_sampler s)]"
    and w: "w = fst (weight_sampler_call lb s B g)"
    and prior: "prior = fst (random_normal [B, num_features s, ws_P (weight_sampler s)] g)"
    and noise: "noise = fst (random_normal
                  [B, ws_P (weight_sampler s), ws_M (weight_sampler s), 1]
                  (snd (random_normal [B, num_features s, ws_P (weight_sampler s)] g)))"
  shows "shape w = [B, num_features s + ws_M (weight_sampler s), ws_P (weight_sampler s)] \<and>
         shape prior = [B, num_features s, ws_P (weight_sampler s)] \<and>
         (\<forall>b < B. \<forall>l < num_features s. \<forall>p < ws_P (weight_sampler s).
            entry w [b, l, p] = entry prior [b, l, p]) \<and>
         (\<forall>b < B. \<forall>m < ws_M (weight_sampler s). \<forall>p < ws_P (weight_sampler s).
            (\<Sum>j\<leftarrow>[0..<ws_M (weight_sampler s)].
               entry (ws_Kmm (weight_sampler s)) [m, j] *
               entry w [b, num_features s + j, p]) =
            inducing_draw lb s noise b m p - prior_at_Z lb s prior b m p) \<and>
         (prepare_weight_sampler lb (layer s) = Inr (weight_sampler s) \<longrightarrow>
            ws_Kmm (weight_sampler s) = gram lb (layer s) \<and>
            ws_whiten (weight_sampler s) = whiten (layer s))"
proof -
  let ?ws = "weight_sampler s"
  let ?M = "ws_M ?ws" and ?P = "ws_P ?ws" and ?A = "ws_Kmm ?ws" and ?L = "num_features s"
  from weight_sampler_call_residual [OF qm qs zm bank four chol prior noise]
  obtain d where weq: "w = tf_concat 1 prior (compute_A_inv_b lb ?A d)"
    and sp: "shape prior = [B, ?L, ?P]" and sd: "shape d = [B, ?M, ?P]"
    and ed: "\<forall>b < B. \<forall>m < ?M. \<forall>p < ?P.
        entry d [b, m, p] = inducing_draw lb s noise b m p - prior_at_Z lb s prior b m p"
    unfolding w by blast
  let ?v = "compute_A_inv_b lb ?A d"
  from solv sd have sv: "shape ?v = [B, ?M, ?P]"
    and ev: "\<forall>b < B. \<forall>m < ?M. \<forall>p < ?P.
        (\<Sum>j\<leftarrow>[0..<?M]. entry ?A [m, j] * entry ?v [b, j, p]) = entry d [b, m, p]"
    by (simp_all add: solves_def)
  have shw: "shape w = [B, ?L + ?M, ?P]"
    unfolding weq by (rule shape_concat_axis1_3 [OF sp sv])
  have low: "entry w [b, l, p] = entry prior [b, l, p]" if "l < ?L" for b l p
    unfolding weq by (rule entry_concat_axis1_low [OF sp that])
  have high: "(\<Sum>j\<leftarrow>[0..<?M]. entry ?A [m, j] * entry w [b, ?L + j, p]) =
      inducing_draw lb s noise b m p - prior_at_Z lb s prior b m p"
    if "b < B" "m < ?M" "p < ?P" for b m p
  proof -
    have "(\<Sum>j\<leftarrow>[0..<?M]. entry ?A [m, j] * entry w [b, ?L + j, p]) =
        (\<Sum>j\<leftarrow>[0..<?M]. entry ?A [m, j] * entry ?v [b, j, p])"
      unfolding weq by (simp only: entry_concat_axis1_high [OF sp])
    also from ev that have "\<dots> = entry d [b, m, p]" by simp
    finally show ?thesis using ed that by simp
  qed
  have cur: "ws_Kmm ?ws = gram lb (layer s) \<and> ws_whiten ?ws = whiten (layer s)"
    if "prepare_weight_sampler lb (layer s) = Inr ?ws"
    using prepare_shapes(1) [OF that] prepare_shapes(2) [OF that] by simp
  from shw sp low high cur show ?thesis by blast
qed

text \<open>
  The theorem at the layer sampler that has been evaluated once and whose model has been
  refitted since (the weight sampler holds the Gram matrix 1.000001 of the kernel before
  the refit), and, for its last part, at the layer sampler as constructed.
\<close>

theorem weight_sampler_is_matheron_draw_witness:
  "initialized sampler1_refit \<and>
   shape (q_mu (layer sampler1_refit)) = [1, 1] \<and>
   shape (q_sqrt (layer sampler1_refit)) = [1, 1, 1] \<and>
   shape (inducing_points (layer sampler1_refit)) ! 0 = 1 \<and>
   fourier_shape_contract lib1 \<and>
   solves lib1 (ws_Kmm (weight_sampler sampler1_refit)) 1 1 1 \<and>
   shape (fst (weight_sampler_call lib1 sampler1_refit 1 rng0)) = [1, 2, 1] \<and>
   entry (fst (weight_sampler_call lib1 sampler1_refit 1 rng0)) [0, 0, 0] = 0 \<and>
   entry (ws_Kmm (weight_sampler sampler1_refit)) [0, 0] = 1000001 / 1000000 \<and>
   entry (ws_Kmm (weight_sampler sampler1_refit)) [0, 0] *
     entry (fst (weight_sampler_call lib1 sampler1_refit 1 rng0)) [0, 1, 0] = 3 \<and>
   prepare_weight_sampler lib1 (layer sampler1) = Inr (weight_sampler sampler1) \<and>
   ws_Kmm (weight_sampler sampler1) = gram lib1 (layer sampler1)"
proof -
  note f = sampler1_refit_fields
  note c = sampler1_closure
  let ?s = sampler1_refit
  let ?w = "fst (weight_sampler_call lib1 ?s 1 rng0)"
  let ?prior = "fst (random_normal [1, num_features ?s, ws_P (weight_sampler ?s)] rng0)"
  let ?noise = "fst (random_normal [1, ws_P (weight_sampler ?s), ws_M (weight_sampler ?s), 1]
                  (snd (random_normal [1, num_features ?s, ws_P (weight_sampler ?s)] rng0)))"
  have qm: "shape (q_mu (layer ?s)) = [ws_M (weight_sampler ?s), ws_P (weight_sampler ?s)]"
    and qs: "shape (q_sqrt (layer ?s)) =
               [ws_P (weight_sampler ?s), ws_M (weight_sampler ?s), ws_M (weight_sampler ?s)]"
    and zm: "shape (inducing_points (layer ?s)) ! 0 = ws_M (weight_sampler ?s)"
    and bank: "shape (rff_W (feature_functions ?s)) ! 0 = num_features ?s"
    and chol: "ws_whiten (weight_sampler ?s) \<longrightarrow>
                 shape (cholesky lib1 (ws_Kmm (weight_sampler ?s))) =
                   [ws_M (weight_sampler ?s), ws_M (weight_sampler ?s)]"
    by (simp_all add: f c layer1_parameters layer1_inducing matrix1_def sampler1_def shape_draw)
  have k: "entry (ws_Kmm (weight_sampler ?s)) [0, 0] = 1000001 / 1000000"
    by (simp add: f c gram_layer1_entry)
  have solv: "solves lib1 (ws_Kmm (weight_sampler ?s)) 1 (ws_M (weight_sampler ?s))
       (ws_P (weight_sampler ?s))"
    using solves_lib1 [of "ws_Kmm (weight_sampler ?s)" 1 1] k by (simp add: f c)
  note t = weight_sampler_is_matheron_draw [where g = rng0, OF qm qs zm bank lib1_fourier
      solv chol refl refl refl]
  from t have sh: "shape ?w = [1, 2, 1]" by (simp add: f c)
  from t have "entry ?w [0, 0, 0] = entry ?prior [0, 0, 0]" by (simp add: f c)
  then have lo: "entry ?w [0, 0, 0] = 0"
    by (simp add: f c random_normal_def entry_draw rng0_def)
  from t have "(\<Sum>j\<leftarrow>[0..<1]. entry (ws_Kmm (weight_sampler ?s)) [0, j] *
               entry ?w [0, 1 + j, 0]) =
      inducing_draw lib1 ?s ?noise 0 0 0 - prior_at_Z lib1 ?s ?prior 0 0 0"
    by (simp add: f c)
  moreover have "inducing_draw lib1 ?s ?noise 0 0 0 = 3"
    by (simp add: inducing_draw_def posterior_draw_def f c layer1_parameters matrix1_def
        random_normal_def entry_draw snd_draw rng0_def)
  moreover have "prior_at_Z lib1 ?s ?prior 0 0 0 = 0"
    by (simp add: prior_at_Z_def f c random_normal_def entry_draw rng0_def)
  ultimately have hi: "entry (ws_Kmm (weight_sampler ?s)) [0, 0] * entry ?w [0, 1, 0] = 3"
    by simp
  have sv: "solves lib1 (ws_Kmm (weight_sampler ?s)) 1 1 1" using solv by (simp add: f c)
  have shapes: "shape (q_mu (layer ?s)) = [1, 1]" "shape (q_sqrt (layer ?s)) = [1, 1, 1]"
    "shape (inducing_points (layer ?s)) ! 0 = 1"
    using qm qs zm by (simp_all add: f c)
  have qm1: "shape (q_mu (layer sampler1)) =
      [ws_M (weight_sampler sampler1), ws_P (weight_sampler sampler1)]"
    and qs1: "shape (q_sqrt (layer sampler1)) =
      [ws_P (weight_sampler sampler1), ws_M (weight_sampler sampler1),
       ws_M (weight_sampler sampler1)]"
    and zm1: "shape (inducing_points (layer sampler1)) ! 0 = ws_M (weight_sampler sampler1)"
    and bank1: "shape (rff_W (feature_functions sampler1)) ! 0 = num_features sampler1"
    and chol1: "ws_whiten (weight_sampler sampler1) \<longrightarrow>
                 shape (cholesky lib1 (ws_Kmm (weight_sampler sampler1))) =
                   [ws_M (weight_sampler sampler1), ws_M (weight_sampler sampler1)]"
    by (simp_all add: c layer1_parameters layer1_inducing matrix1_def sampler1_def shape_draw)
  have solv1: "solves lib1 (ws_Kmm (weight_sampler sampler1)) 1 (ws_M (weight_sampler sampler1))
       (ws_P (weight_sampler sampler1))"
    using solves_lib1 [of "gram lib1 (gp_layer1 1)" 1 1]
    by (simp add: c gram_layer1_entry)
  from weight_sampler_is_matheron_draw [where g = rng0, OF qm1 qs1 zm1 bank1 lib1_fourier
      solv1 chol1 refl refl refl] prepare_sampler1
  have cur: "ws_Kmm (weight_sampler sampler1) = gram lib1 (layer sampler1)" by blast
  from f(5) shapes lib1_fourier sv sh lo k hi prepare_sampler1 cur show ?thesis by simp
qed

text \<open>
  With \<open>K_mm\<close> read as the Gram matrix of the layer as it is now, the equation does
  not hold at that initialised layer sampler: the left-hand side is
  2.000001 * 3 / 1.000001, the right-hand side is 3.
\<close>

theorem matheron_equation_counterexample:
  "initialized sampler1_refit \<and>
   entry (gram lib1 (layer sampler1_refit)) [0, 0] = 2000001 / 1000000 \<and>
   entry (fst (weight_sampler_call lib1 sampler1_refit 1 rng0)) [0, 1, 0] = 3000000 / 1000001 \<and>
   entry (gram lib1 (layer sampler1_refit)) [0, 0] *
     entry (fst (weight_sampler_call lib1 sampler1_refit 1 rng0)) [0, 1, 0] = 6000003 / 1000001 \<and>
   inducing_draw lib1 sampler1_refit
       (fst (random_normal [1, 1, 1, 1] (snd (random_normal [1, 1, 1] rng0)))) 0 0 0 -
     prior_at_Z lib1 sampler1_refit (fst (random_normal [1, 1, 1] rng0)) 0 0 0 = 3"
proof -
  note f = sampler1_refit_fields
  note c = sampler1_closure
  have g: "entry (gram lib1 (layer sampler1_refit)) [0, 0] = 2000001 / 1000000"
    by (simp add: f gram_layer1_entry)
  have v: "entry (fst (weight_sampler_call lib1 sampler1_refit 1 rng0)) [0, 1, 0] =
      3000000 / 1000001"
    using layer1_weights [OF f(1) f(3) f(6), of "gram lib1 (gp_layer1 1)"]
    by (simp add: f c gram_layer1_entry)
  have i: "inducing_draw lib1 sampler1_refit
       (fst (random_normal [1, 1, 1, 1] (snd (random_normal [1, 1, 1] rng0)))) 0 0 0 = 3"
    by (simp add: inducing_draw_def posterior_draw_def f c layer1_parameters matrix1_def
        random_normal_def entry_draw snd_draw rng0_def)
  have p: "prior_at_Z lib1 sampler1_refit (fst (random_normal [1, 1, 1] rng0)) 0 0 0 = 0"
    by (simp add: prior_at_Z_def f c random_normal_def entry_draw rng0_def)
  have m: "entry (gram lib1 (layer sampler1_refit)) [0, 0] *
     entry (fst (weight_sampler_call lib1 sampler1_refit 1 rng0)) [0, 1, 0] = 6000003 / 1000001"
    unfolding g v by simp
  have d: "inducing_draw lib1 sampler1_refit
       (fst (random_normal [1, 1, 1, 1] (snd (random_normal [1, 1, 1] rng0)))) 0 0 0 -
     prior_at_Z lib1 sampler1_refit (fst (random_normal [1, 1, 1] rng0)) 0 0 0 = 3"
    unfolding i p by simp
  from f(5) g v m d show ?thesis by blast
qed

section \<open>The Gram matrix\<close>

text \<open>
  C3 (as amended). The Gram matrix \<open>K_mm = K(Z, Z) + jitter * I\<close> is computed from the
  layer's current kernel and inducing points when the weight sampler is prepared, that
  is in the constructor and in every \<open>update\<close>, and is kept in the weight sampler.
  \<open>resample\<close> leaves the weight sampler as it is, whatever the layer has become, and
  solves against the kept matrix (its Cholesky factor is computed from the kept matrix
  in each pass). So a draw made by \<open>update\<close> uses the Gram matrix of the layer as it is
  now, and a draw made by \<open>resample\<close> uses the one of the last \<open>update\<close> or of the
  construction.
\<close>

theorem gram_matrix_is_recomputed_by_update:
  "(\<forall>ws. prepare_weight_sampler lb gl = Inr ws \<longrightarrow> ws_Kmm ws = gram lb gl) \<and>
   (fst (update lb s g) = Inr () \<longrightarrow>
      ws_Kmm (weight_sampler (fst (snd (update lb s g)))) = gram lb (layer s)) \<and>
   (\<forall>gl'. weight_sampler (fst (resample lb (s\<lparr>layer := gl'\<rparr>) g)) = weight_sampler s) \<and>
   (\<forall>gl'. \<exists>prior d.
      weights_sample (fst (resample lb (s\<lparr>layer := gl'\<rparr>) g)) =
        tf_concat 1 prior (compute_A_inv_b lb (ws_Kmm (weight_sampler s)) d))"
proof -
  have a: "ws_Kmm ws = gram lb gl" if "prepare_weight_sampler lb gl = Inr ws" for ws
    by (rule prepare_shapes(1) [OF that])
  have b: "ws_Kmm (weight_sampler (fst (snd (update lb s g)))) = gram lb (layer s)"
    if "fst (update lb s g) = Inr ()"
  proof (cases "prepare_weight_sampler lb (layer s)")
    case (Inl e)
    with that show ?thesis by (simp add: update_err)
  next
    case (Inr ws)
    from update_ok [OF Inr, of g] prepare_shapes(1) [OF Inr] show ?thesis
      by (simp add: resample_fst)
  qed
  have c: "weight_sampler (fst (resample lb (s\<lparr>layer := gl'\<rparr>) g)) = weight_sampler s" for gl'
    by (simp add: resample_fst)
  have d: "\<exists>prior d. weights_sample (fst (resample lb (s\<lparr>layer := gl'\<rparr>) g)) =
        tf_concat 1 prior (compute_A_inv_b lb (ws_Kmm (weight_sampler s)) d)" for gl'
    by (simp add: resample_fst weight_sampler_call_fst Let_def) blast
  from a b c d show ?thesis by blast
qed


theorem gram_matrix_is_recomputed_by_update_witness:
  "prepare_weight_sampler lib1 (gp_layer1 2) =
     Inr \<lparr>ws_Kmm = gram lib1 (gp_layer1 2), ws_whiten = False, ws_M = 1, ws_P = 1\<rparr> \<and>
   fst (update lib1 sampler1_refit rng0) = Inr () \<and>
   ws_Kmm (weight_sampler (fst (snd (update lib1 sampler1_refit rng0)))) =
     gram lib1 (layer sampler1_refit) \<and>
   weight_sampler (fst (resample lib1 (sampler1\<lparr>layer := gp_layer1 2\<rparr>) rng0)) =
     weight_sampler sampler1"
proof -
  have p: "prepare_weight_sampler lib1 (layer sampler1_refit) =
      Inr \<lparr>ws_Kmm = gram lib1 (gp_layer1 2), ws_whiten = False, ws_M = 1, ws_P = 1\<rparr>"
    by (simp add: sampler1_refit_fields prepare_layer1)
  have u: "fst (update lib1 sampler1_refit rng0) = Inr ()"
    by (simp add: update_ok [OF p])
  from gram_matrix_is_recomputed_by_update [of lib1 "gp_layer1 2" sampler1_refit rng0] u
  have "ws_Kmm (weight_sampler (fst (snd (update lib1 sampler1_refit rng0)))) =
     gram lib1 (layer sampler1_refit)" by blast
  moreover from gram_matrix_is_recomputed_by_update [of lib1 "gp_layer1 2" sampler1 rng0]
  have "weight_sampler (fst (resample lib1 (sampler1\<lparr>layer := gp_layer1 2\<rparr>) rng0)) =
     weight_sampler sampler1" by blast
  ultimately show ?thesis using u prepare_layer1 [of 2] by simp
qed


theorem stale_gram_matrix_counterexample:
  "initialized sampler1_refit \<and> batch_size sampler1_refit = 1 \<and>
   entry (gram lib1 (layer sampler1_refit)) [0, 0] = 2000001 / 1000000 \<and>
   entry (ws_Kmm (weight_sampler (fst (resample lib1 sampler1_refit rng0)))) [0, 0] =
     1000001 / 1000000 \<and>
   entry (weights_sample (fst (resample lib1 sampler1_refit rng0))) [0, 1, 0] =
     3000000 / 1000001 \<and>
   fst (update lib1 sampler1_refit rng0) = Inr () \<and>
   entry (weights_sample (fst (snd (update lib1 sampler1_refit rng0)))) [0, 1, 0] =
     3000000 / 2000001"
proof -
  note f = sampler1_refit_fields
  have g: "entry (gram lib1 (layer sampler1_refit)) [0, 0] = 2000001 / 1000000"
    by (simp add: f gram_layer1_entry)
  have k: "entry (ws_Kmm (weight_sampler (fst (resample lib1 sampler1_refit rng0)))) [0, 0] =
     1000001 / 1000000"
    by (simp add: resample_fst f sampler1_closure gram_layer1_entry)
  have r: "entry (weights_sample (fst (resample lib1 sampler1_refit rng0))) [0, 1, 0] =
     3000000 / 1000001"
    using layer1_weights [OF f(1) f(3) f(6), of "gram lib1 (gp_layer1 1)"]
    by (simp add: resample_fst f sampler1_closure gram_layer1_entry)
  have p: "prepare_weight_sampler lib1 (layer sampler1_refit) =
      Inr \<lparr>ws_Kmm = gram lib1 (gp_layer1 2), ws_whiten = False, ws_M = 1, ws_P = 1\<rparr>"
    by (simp add: f prepare_layer1)
  have u: "fst (update lib1 sampler1_refit rng0) = Inr ()"
    by (simp add: update_ok [OF p])
  have v: "entry (weights_sample (fst (snd (update lib1 sampler1_refit rng0)))) [0, 1, 0] =
     3000000 / 2000001"
    using layer1_weights [of "sampler1_refit\<lparr>weight_sampler :=
        \<lparr>ws_Kmm = gram lib1 (gp_layer1 2), ws_whiten = False, ws_M = 1, ws_P = 1\<rparr>\<rparr>"
        2 "gram lib1 (gp_layer1 2)"]
    by (simp add: update_ok [OF p] resample_fst f gram_layer1_entry)
  from f(5) f(4) g k r u v show ?thesis by simp
qed


end
